theory Spec2Isabelle
  imports Main
begin

section \<open>The ping tool of Open-WebUI-Tools (src/ping.py)\<close>

text \<open>
  The theory embeds \<^verbatim>\<open>class Tools\<close> of \<^verbatim>\<open>src/ping.py\<close>: target sanitization
  and host/port parsing, the ICMP attempt through the system ping utility, the parsing of
  its output with four regular expressions, the TCP fallback loop and the two report
  tables, and \<^verbatim>\<open>Tools.ping\<close> itself.

  Conventions of the embedding.
  \<^item> A Python \<^verbatim>\<open>str\<close> is a \<open>string\<close>; one \<open>char\<close> is one code point, so the model
    covers the strings whose code points lie below 256. Whitespace and letter case are
    Python's on that range (\<^verbatim>\<open>str.isspace\<close>, \<^verbatim>\<open>str.lower\<close>).
  \<^item> A Python \<^verbatim>\<open>int\<close> is an \<open>int\<close>. The conversions between \<^verbatim>\<open>int\<close> and \<^verbatim>\<open>str\<close>
    (\<^verbatim>\<open>int(s)\<close>, \<^verbatim>\<open>str(n)\<close>, \<^verbatim>\<open>f"{n}"\<close>) raise ValueError beyond 4300 digits, the
    default of \<^verbatim>\<open>sys.get_int_max_str_digits()\<close> in CPython 3.11. The length of a list is
    below \<^verbatim>\<open>2**63\<close> in CPython, so its conversion is the plain decimal rendering.
  \<^item> A Python \<^verbatim>\<open>float\<close> is a value of a type parameter \<open>'f\<close>; the float operations
    the code uses are fields of a record \<open>float_ops\<close>.
  \<^item> A raised exception is \<open>Inl e\<close> of a result \<open>exn + 'a\<close>; every \<^verbatim>\<open>try\<close> of the
    source is a case distinction on such a result.
  \<^item> The outside world (the file system lookup, the subprocess, the clock, the network)
    is a record \<open>env\<close> of functions; the calls that act on the world answer as a
    function of the list of events so far, and every such call appends its event.
\<close>

subsection \<open>Exceptions\<close>

datatype exn =
    ValueError string
  | ZeroDivisionError string
  | RaisedException string

text \<open>\<^verbatim>\<open>str(e)\<close>, also \<^verbatim>\<open>f"{e}"\<close>: the message of the exception.\<close>

fun str_exn :: "exn \<Rightarrow> string" where
  "str_exn (ValueError m) = m"
| "str_exn (ZeroDivisionError m) = m"
| "str_exn (RaisedException m) = m"

subsection \<open>Python's string and integer builtins\<close>

definition py_isspace :: "char \<Rightarrow> bool" where
  "py_isspace c =
     (c \<in> set [CHR 0x09, CHR 0x0A, CHR 0x0B, CHR 0x0C, CHR 0x0D, CHR 0x1C, CHR 0x1D,
                CHR 0x1E, CHR 0x1F, CHR 0x20, CHR 0x85, CHR 0xA0])"

text \<open>\<^verbatim>\<open>s.strip()\<close>\<close>

definition py_strip :: "string \<Rightarrow> string" where
  "py_strip s = rev (dropWhile py_isspace (rev (dropWhile py_isspace s)))"

definition upper_letters :: string where
  "upper_letters = ''ABCDEFGHIJKLMNOPQRSTUVWXYZ'' @
     [CHR 0xC0, CHR 0xC1, CHR 0xC2, CHR 0xC3, CHR 0xC4, CHR 0xC5, CHR 0xC6, CHR 0xC7,
      CHR 0xC8, CHR 0xC9, CHR 0xCA, CHR 0xCB, CHR 0xCC, CHR 0xCD, CHR 0xCE, CHR 0xCF,
      CHR 0xD0, CHR 0xD1, CHR 0xD2, CHR 0xD3, CHR 0xD4, CHR 0xD5, CHR 0xD6,
      CHR 0xD8, CHR 0xD9, CHR 0xDA, CHR 0xDB, CHR 0xDC, CHR 0xDD, CHR 0xDE]"

definition lower_letters :: string where
  "lower_letters = ''abcdefghijklmnopqrstuvwxyz'' @
     [CHR 0xE0, CHR 0xE1, CHR 0xE2, CHR 0xE3, CHR 0xE4, CHR 0xE5, CHR 0xE6, CHR 0xE7,
      CHR 0xE8, CHR 0xE9, CHR 0xEA, CHR 0xEB, CHR 0xEC, CHR 0xED, CHR 0xEE, CHR 0xEF,
      CHR 0xF0, CHR 0xF1, CHR 0xF2, CHR 0xF3, CHR 0xF4, CHR 0xF5, CHR 0xF6,
      CHR 0xF8, CHR 0xF9, CHR 0xFA, CHR 0xFB, CHR 0xFC, CHR 0xFD, CHR 0xFE]"

definition lower_char :: "char \<Rightarrow> char" where
  "lower_char c = (case map_of (zip upper_letters lower_letters) c of Some d \<Rightarrow> d | None \<Rightarrow> c)"

text \<open>\<^verbatim>\<open>s.lower()\<close>\<close>

definition py_lower :: "string \<Rightarrow> string" where
  "py_lower s = map lower_char s"

text \<open>\<^verbatim>\<open>s.startswith(p)\<close>\<close>

definition py_startswith :: "string \<Rightarrow> string \<Rightarrow> bool" where
  "py_startswith s p = (take (length p) s = p)"

text \<open>\<^verbatim>\<open>sub in s\<close>\<close>

fun py_in :: "string \<Rightarrow> string \<Rightarrow> bool" where
  "py_in sub [] = (sub = [])"
| "py_in sub (c # cs) = (py_startswith (c # cs) sub \<or> py_in sub cs)"

text \<open>\<^verbatim>\<open>a or b\<close> on strings: the empty string is false.\<close>

definition or_str :: "string \<Rightarrow> string \<Rightarrow> string" where
  "or_str a b = (if a = [] then b else a)"

text \<open>\<^verbatim>\<open>a or b\<close> with \<open>a\<close> an optional integer: \<^verbatim>\<open>None\<close> and 0 are false.\<close>

definition or_int :: "int option \<Rightarrow> int \<Rightarrow> int" where
  "or_int a b = (case a of None \<Rightarrow> b | Some n \<Rightarrow> if n = 0 then b else n)"

text \<open>\<^verbatim>\<open>sep.join(rows)\<close>\<close>

fun py_join :: "string \<Rightarrow> string list \<Rightarrow> string" where
  "py_join sep [] = []"
| "py_join sep [r] = r"
| "py_join sep (r # r' # rs) = r @ sep @ py_join sep (r' # rs)"

text \<open>
  \<^verbatim>\<open>s.split(c, 1)\<close> and \<^verbatim>\<open>s.rsplit(c, 1)\<close> for a separator of one character: at most one
  split, at the first (the last) occurrence.
\<close>

definition py_split1 :: "char \<Rightarrow> string \<Rightarrow> string list" where
  "py_split1 c s =
     (if c \<in> set s
      then [takeWhile (\<lambda>x. x \<noteq> c) s, tl (dropWhile (\<lambda>x. x \<noteq> c) s)]
      else [s])"

definition py_rsplit1 :: "char \<Rightarrow> string \<Rightarrow> string list" where
  "py_rsplit1 c s =
     (if c \<in> set s
      then [rev (tl (dropWhile (\<lambda>x. x \<noteq> c) (rev s))), rev (takeWhile (\<lambda>x. x \<noteq> c) (rev s))]
      else [s])"

text \<open>\<^verbatim>\<open>a, b = xs\<close>: unpacking raises ValueError unless there are exactly two values.\<close>

fun unpack2 :: "string list \<Rightarrow> exn + (string \<times> string)" where
  "unpack2 [a, b] = Inr (a, b)"
| "unpack2 [] = Inl (ValueError ''not enough values to unpack (expected 2, got 0)'')"
| "unpack2 [a] = Inl (ValueError ''not enough values to unpack (expected 2, got 1)'')"
| "unpack2 (a # b # c # r) = Inl (ValueError ''too many values to unpack (expected 2)'')"

definition is_digit :: "char \<Rightarrow> bool" where
  "is_digit c = (c \<in> set ''0123456789'')"

definition digit_val :: "char \<Rightarrow> nat" where
  "digit_val c = length (takeWhile (\<lambda>d. d \<noteq> c) ''0123456789'')"

text \<open>
  The digits of an integer literal as \<^verbatim>\<open>int\<close> reads them: a digit first and last, single
  underscores between digits.
\<close>

fun digits_ok :: "string \<Rightarrow> bool" where
  "digits_ok [] = False"
| "digits_ok [c] = is_digit c"
| "digits_ok (c # d # r) =
     (is_digit c \<and> (if d = CHR ''_'' then digits_ok r else digits_ok (d # r)))"

definition digits_val :: "string \<Rightarrow> nat" where
  "digits_val s = foldl (\<lambda>a c. 10 * a + digit_val c) 0 (filter (\<lambda>c. c \<noteq> CHR ''_'') s)"

text \<open>The default of \<^verbatim>\<open>sys.get_int_max_str_digits()\<close>.\<close>

definition max_str_digits :: nat where
  "max_str_digits = 4300"

text \<open>The decimal rendering of a natural number and of an integer, of any size.\<close>

fun str_nat :: "nat \<Rightarrow> string" where
  "str_nat n =
     (if n < 10 then [''0123456789'' ! n]
      else str_nat (n div 10) @ [''0123456789'' ! (n mod 10)])"

definition decimal :: "int \<Rightarrow> string" where
  "decimal i = (if i < 0 then CHR ''-'' # str_nat (nat (- i)) else str_nat (nat i))"

text \<open>The number of decimal digits of an integer, the sign not counted.\<close>

definition int_digits :: "int \<Rightarrow> nat" where
  "int_digits i = length (str_nat (nat \<bar>i\<bar>))"

text \<open>
  \<^verbatim>\<open>int(s)\<close> for a string: surrounding whitespace is dropped, one sign is allowed, the
  rest must be decimal digits; anything else raises ValueError, and so do more than
  \<open>max_str_digits\<close> digits. The whitespace \<^verbatim>\<open>int\<close> drops is that of \<^verbatim>\<open>str.isspace\<close>
  without the four separators 0x1C to 0x1F. The tool never reads the message of the
  ValueError; the model gives the message of the malformed literal without the quotes of
  \<^verbatim>\<open>repr\<close>, and for a literal that is both malformed and too long that message too.
\<close>

definition int_space :: "char \<Rightarrow> bool" where
  "int_space c =
     (c \<in> set [CHR 0x09, CHR 0x0A, CHR 0x0B, CHR 0x0C, CHR 0x0D, CHR 0x20, CHR 0x85, CHR 0xA0])"

definition py_int :: "string \<Rightarrow> exn + int" where
  "py_int s =
     (let t = rev (dropWhile int_space (rev (dropWhile int_space s)));
          neg = py_startswith t ''-'';
          body = (if py_startswith t ''-'' \<or> py_startswith t ''+'' then tl t else t);
          ndigits = length (filter is_digit body)
      in if digits_ok body
         then if max_str_digits < ndigits
              then Inl (ValueError
                     (''Exceeds the limit (4300 digits) for integer string conversion: '' @
                      ''value has '' @ str_nat ndigits @ '' digits; '' @
                      ''use sys.set_int_max_str_digits() to increase the limit''))
              else Inr (if neg then - int (digits_val body) else int (digits_val body))
         else Inl (ValueError (''invalid literal for int() with base 10: '' @ s)))"

text \<open>
  \<^verbatim>\<open>str(n)\<close> for an integer, also \<^verbatim>\<open>f"{n}"\<close>: ValueError for more than \<open>max_str_digits\<close>
  digits.
\<close>

definition str_limit_error :: exn where
  "str_limit_error =
     ValueError (''Exceeds the limit (4300 digits) for integer string conversion; '' @
                 ''use sys.set_int_max_str_digits() to increase the limit'')"

definition str_int :: "int \<Rightarrow> exn + string" where
  "str_int i = (if max_str_digits < int_digits i then Inl str_limit_error else Inr (decimal i))"

subsection \<open>Sanitization and target parsing\<close>

text \<open>
  \<^verbatim>\<open>_ALLOWED_TARGET = re.compile(r"^[A-Za-z0-9\.\-:%_\[\]]+$")\<close>. The class is
  \<open>allowed_char\<close>. \<^verbatim>\<open>match\<close> anchors at the start, the class is taken greedily, and
  \<^verbatim>\<open>$\<close> holds at the end of the string or before a newline that ends it.
\<close>

definition allowed_char :: "char \<Rightarrow> bool" where
  "allowed_char c =
     (c \<in> set (''ABCDEFGHIJKLMNOPQRSTUVWXYZ'' @ ''abcdefghijklmnopqrstuvwxyz'' @
               ''0123456789'' @ ''.-:%_[]''))"

definition allowed_target_match :: "string \<Rightarrow> bool" where
  "allowed_target_match t =
     (let a = takeWhile allowed_char t; r = dropWhile allowed_char t
      in a \<noteq> [] \<and> (r = [] \<or> r = ''\<newline>''))"

definition sanitize :: "string \<Rightarrow> string option" where
  "sanitize target =
     (let t = py_strip target
      in if t = [] \<or> \<not> allowed_target_match t then None else Some t)"

text \<open>The body of the \<^verbatim>\<open>try\<close> of the bracketed form \<^verbatim>\<open>[IPv6]:port\<close>.\<close>

definition split_bracketed :: "string \<Rightarrow> exn + (string \<times> int option)" where
  "split_bracketed target =
     (case unpack2 (py_split1 (CHR '']'') (tl target)) of
        Inl e \<Rightarrow> Inl e
      | Inr (host, rest) \<Rightarrow>
          if py_startswith rest '':''
          then (case py_int (tl rest) of Inl e \<Rightarrow> Inl e | Inr n \<Rightarrow> Inr (host, Some n))
          else Inr (host, None))"

definition split_host_port :: "string \<Rightarrow> exn + (string \<times> int option)" where
  "split_host_port target =
     (if py_startswith target ''[''
      then (case split_bracketed target of
              Inl e \<Rightarrow> Inr (target, None)
            | Inr r \<Rightarrow> Inr r)
      else if count_list target (CHR '':'') > 1 then Inr (target, None)
      else if CHR '':'' \<in> set target
      then (case unpack2 (py_rsplit1 (CHR '':'') target) of
              Inl e \<Rightarrow> Inl e
            | Inr (host, p) \<Rightarrow>
                (case py_int p of
                   Inl (ValueError m) \<Rightarrow> Inr (target, None)
                 | Inl e \<Rightarrow> Inl e
                 | Inr n \<Rightarrow> Inr (host, Some n)))
      else Inr (target, None))"

subsection \<open>Regular expressions\<close>

text \<open>
  The four patterns of the source use character classes, literal characters, the
  repetitions \<^verbatim>\<open>?\<close>, \<^verbatim>\<open>*\<close>, \<^verbatim>\<open>+\<close> and \<^verbatim>\<open>*?\<close> on a single class, one alternative of
  literals, and named groups that are not nested. A pattern is the list of its items in
  the order of the pattern text. \<open>re_match\<close> is the backtracking matcher of \<^verbatim>\<open>re\<close>: a
  greedy repetition tries the longer match first, a lazy one the shorter, an alternative
  its branches from left to right, and the first complete match wins.
\<close>

datatype cclass =
    Digit        \<comment> \<open>\<^verbatim>\<open>\d\<close>\<close>
  | Space        \<comment> \<open>\<^verbatim>\<open>\s\<close>\<close>
  | AnyChar      \<comment> \<open>\<^verbatim>\<open>.\<close> under DOTALL\<close>
  | NotNewline   \<comment> \<open>\<^verbatim>\<open>.\<close> without DOTALL\<close>
  | DigitOrDot   \<comment> \<open>\<^verbatim>\<open>[\d\.]\<close>\<close>
  | Lit char     \<comment> \<open>a literal character under IGNORECASE\<close>

fun in_class :: "cclass \<Rightarrow> char \<Rightarrow> bool" where
  "in_class Digit c = is_digit c"
| "in_class Space c = py_isspace c"
| "in_class AnyChar c = True"
| "in_class NotNewline c = (c \<noteq> CHR 0x0A)"
| "in_class DigitOrDot c = (is_digit c \<or> c = CHR ''.'')"
| "in_class (Lit a) c = (lower_char c = lower_char a)"

datatype item =
    One cclass
  | Opt cclass
  | Star cclass
  | Plus cclass
  | LazyStar cclass
  | Alt "string list"   \<comment> \<open>\<^verbatim>\<open>(?:a|b)\<close>, literals under IGNORECASE\<close>
  | GOpen string        \<comment> \<open>\<^verbatim>\<open>(?P<name>\<close>\<close>
  | GClose              \<comment> \<open>\<^verbatim>\<open>)\<close>\<close>

text \<open>A literal string of the pattern.\<close>

definition lit :: "string \<Rightarrow> item list" where
  "lit s = map (\<lambda>c. One (Lit c)) s"

type_synonym groups = "(string \<times> string) list"

text \<open>The text consumed so far by the group that is open, if one is.\<close>

definition push :: "string \<Rightarrow> (string \<times> string) option \<Rightarrow> (string \<times> string) option" where
  "push w cur = (case cur of None \<Rightarrow> None | Some (n, b) \<Rightarrow> Some (n, b @ w))"

definition close_group :: "(string \<times> string) option \<Rightarrow> groups \<Rightarrow> groups" where
  "close_group cur gs = (case cur of None \<Rightarrow> gs | Some g \<Rightarrow> gs @ [g])"

definition ci_prefix :: "string \<Rightarrow> string \<Rightarrow> bool" where
  "ci_prefix a s = (py_lower (take (length a) s) = py_lower a)"

text \<open>The weight of a pattern: it bounds the recursion of the matcher.\<close>

fun item_weight :: "item \<Rightarrow> nat" where
  "item_weight (Alt as) = Suc (length as)"
| "item_weight i = 1"

function (sequential) re_match :: "item list \<Rightarrow> string \<Rightarrow> (string \<times> string) option \<Rightarrow> groups \<Rightarrow> groups option" where
  "re_match [] s cur gs = Some gs"
| "re_match (One k # r) [] cur gs = None"
| "re_match (One k # r) (c # cs) cur gs =
     (if in_class k c then re_match r cs (push [c] cur) gs else None)"
| "re_match (Opt k # r) [] cur gs = re_match r [] cur gs"
| "re_match (Opt k # r) (c # cs) cur gs =
     (if in_class k c
      then (case re_match r cs (push [c] cur) gs of
              Some m \<Rightarrow> Some m
            | None \<Rightarrow> re_match r (c # cs) cur gs)
      else re_match r (c # cs) cur gs)"
| "re_match (Star k # r) [] cur gs = re_match r [] cur gs"
| "re_match (Star k # r) (c # cs) cur gs =
     (if in_class k c
      then (case re_match (Star k # r) cs (push [c] cur) gs of
              Some m \<Rightarrow> Some m
            | None \<Rightarrow> re_match r (c # cs) cur gs)
      else re_match r (c # cs) cur gs)"
| "re_match (Plus k # r) [] cur gs = None"
| "re_match (Plus k # r) (c # cs) cur gs =
     (if in_class k c then re_match (Star k # r) cs (push [c] cur) gs else None)"
| "re_match (LazyStar k # r) [] cur gs = re_match r [] cur gs"
| "re_match (LazyStar k # r) (c # cs) cur gs =
     (case re_match r (c # cs) cur gs of
        Some m \<Rightarrow> Some m
      | None \<Rightarrow> if in_class k c then re_match (LazyStar k # r) cs (push [c] cur) gs else None)"
| "re_match (Alt [] # r) s cur gs = None"
| "re_match (Alt (a # as) # r) s cur gs =
     (if ci_prefix a s
      then (case re_match r (drop (length a) s) (push (take (length a) s) cur) gs of
              Some m \<Rightarrow> Some m
            | None \<Rightarrow> re_match (Alt as # r) s cur gs)
      else re_match (Alt as # r) s cur gs)"
| "re_match (GOpen n # r) s cur gs = re_match r s (Some (n, [])) gs"
| "re_match (GClose # r) s cur gs = re_match r s None (close_group cur gs)"
  by pat_completeness auto
termination
  by (relation "measures [\<lambda>(p, s, cur, gs). sum_list (map item_weight p),
                          \<lambda>(p, s, cur, gs). length s]") auto

text \<open>\<^verbatim>\<open>pattern.search(text)\<close>: the match at the leftmost position that has one.\<close>

fun re_search :: "item list \<Rightarrow> string \<Rightarrow> groups option" where
  "re_search p [] = re_match p [] None []"
| "re_search p (c # cs) =
     (case re_match p (c # cs) None [] of
        Some m \<Rightarrow> Some m
      | None \<Rightarrow> re_search p cs)"

text \<open>\<^verbatim>\<open>m.group(name)\<close>; every named group of the four patterns takes part in a match.\<close>

definition group :: "groups \<Rightarrow> string \<Rightarrow> string" where
  "group m n = (case map_of m n of Some v \<Rightarrow> v | None \<Rightarrow> [])"

text \<open>
  \<^verbatim>\<open>(?P<tx>\d+)\s+packets\s+transmitted,\s+(?P<rx>\d+)\s+received.*?(?P<loss>\d+\.?\d*)%\s+packet\s+loss\<close>
  with IGNORECASE and DOTALL.
\<close>

definition re_packets_unix :: "item list" where
  "re_packets_unix =
     [GOpen ''tx'', Plus Digit, GClose, Plus Space] @ lit ''packets'' @
     [Plus Space] @ lit ''transmitted,'' @
     [Plus Space, GOpen ''rx'', Plus Digit, GClose, Plus Space] @ lit ''received'' @
     [LazyStar AnyChar, GOpen ''loss'', Plus Digit, Opt (Lit (CHR ''.'')), Star Digit, GClose] @
     lit ''%'' @ [Plus Space] @ lit ''packet'' @ [Plus Space] @ lit ''loss''"

text \<open>
  \<^verbatim>\<open>(?:round-trip|rtt).*?=\s*(?P<min>[\d\.]+)/(?P<avg>[\d\.]+)/(?P<max>[\d\.]+)/(?P<mdev>[\d\.]+)\s*ms\<close>
  with IGNORECASE.
\<close>

definition re_rtt_unix :: "item list" where
  "re_rtt_unix =
     [Alt [''round-trip'', ''rtt''], LazyStar NotNewline] @ lit ''='' @
     [Star Space, GOpen ''min'', Plus DigitOrDot, GClose] @ lit ''/'' @
     [GOpen ''avg'', Plus DigitOrDot, GClose] @ lit ''/'' @
     [GOpen ''max'', Plus DigitOrDot, GClose] @ lit ''/'' @
     [GOpen ''mdev'', Plus DigitOrDot, GClose, Star Space] @ lit ''ms''"

text \<open>
  \<^verbatim>\<open>Packets:\s*Sent\s*=\s*(?P<tx>\d+),\s*Received\s*=\s*(?P<rx>\d+),\s*Lost\s*=\s*\d+\s*\((?P<loss>\d+)%\s*loss\)\<close>
  with IGNORECASE.
\<close>

definition re_packets_win :: "item list" where
  "re_packets_win =
     lit ''Packets:'' @ [Star Space] @ lit ''Sent'' @ [Star Space] @ lit ''='' @
     [Star Space, GOpen ''tx'', Plus Digit, GClose] @ lit '','' @
     [Star Space] @ lit ''Received'' @ [Star Space] @ lit ''='' @
     [Star Space, GOpen ''rx'', Plus Digit, GClose] @ lit '','' @
     [Star Space] @ lit ''Lost'' @ [Star Space] @ lit ''='' @
     [Star Space, Plus Digit, Star Space] @ lit ''('' @
     [GOpen ''loss'', Plus Digit, GClose] @ lit ''%'' @ [Star Space] @ lit ''loss)''"

text \<open>
  \<^verbatim>\<open>Minimum\s*=\s*(?P<min>\d+)ms,\s*Maximum\s*=\s*(?P<max>\d+)ms,\s*Average\s*=\s*(?P<avg>\d+)ms\<close>
  with IGNORECASE.
\<close>

definition re_rtt_win :: "item list" where
  "re_rtt_win =
     lit ''Minimum'' @ [Star Space] @ lit ''='' @
     [Star Space, GOpen ''min'', Plus Digit, GClose] @ lit ''ms,'' @
     [Star Space] @ lit ''Maximum'' @ [Star Space] @ lit ''='' @
     [Star Space, GOpen ''max'', Plus Digit, GClose] @ lit ''ms,'' @
     [Star Space] @ lit ''Average'' @ [Star Space] @ lit ''='' @
     [Star Space, GOpen ''avg'', Plus Digit, GClose] @ lit ''ms''"

subsection \<open>The outside world\<close>

text \<open>
  The calls that act on the world, in the order they happen: \<^verbatim>\<open>subprocess.run(cmd)\<close>,
  \<^verbatim>\<open>time.perf_counter()\<close>, \<^verbatim>\<open>socket.create_connection((host, port), timeout)\<close>
  and \<^verbatim>\<open>time.sleep(0.1)\<close>.
\<close>

datatype 'f event =
    SubprocessRun "string list"
  | PerfCounter
  | CreateConnection string int 'f
  | Sleep

text \<open>
  \<open>which\<close> is \<^verbatim>\<open>shutil.which\<close> and \<open>platform_system\<close> is \<^verbatim>\<open>platform.system()\<close>; they read
  the installation and are the same throughout a call. \<open>subprocess_run\<close> answers with an
  exception or with \<^verbatim>\<open>(returncode, stdout, stderr)\<close>. \<open>create_connection\<close> answers with
  an exception, or with \<open>()\<close> when the connection is made; the \<^verbatim>\<open>with\<close> block then
  closes the socket. The exceptions of the world are instances of \<^verbatim>\<open>Exception\<close>.
\<close>

record 'f env =
  which :: "string \<Rightarrow> string option"
  platform_system :: string
  subprocess_run :: "'f event list \<Rightarrow> string list \<Rightarrow> exn + (int \<times> string \<times> string)"
  perf_counter :: "'f event list \<Rightarrow> 'f"
  create_connection :: "'f event list \<Rightarrow> string \<Rightarrow> int \<Rightarrow> 'f \<Rightarrow> exn + unit"

text \<open>The float operations of the code; \<open>fl_format_1f\<close> is the format \<^verbatim>\<open>.1f\<close>.\<close>

record 'f float_ops =
  fl_add :: "'f \<Rightarrow> 'f \<Rightarrow> 'f"
  fl_sub :: "'f \<Rightarrow> 'f \<Rightarrow> 'f"
  fl_mul :: "'f \<Rightarrow> 'f \<Rightarrow> 'f"
  fl_div :: "'f \<Rightarrow> 'f \<Rightarrow> 'f"
  fl_less :: "'f \<Rightarrow> 'f \<Rightarrow> bool"
  fl_of_int :: "int \<Rightarrow> 'f"
  fl_format_1f :: "'f \<Rightarrow> string"

text \<open>A float that may be \<^verbatim>\<open>float("nan")\<close>, and its \<^verbatim>\<open>.1f\<close> format.\<close>

datatype 'f pyfloat = Finite 'f | NaN

fun format_1f :: "'f float_ops \<Rightarrow> 'f pyfloat \<Rightarrow> string" where
  "format_1f ops (Finite x) = fl_format_1f ops x"
| "format_1f ops NaN = ''nan''"

text \<open>\<^verbatim>\<open>min(xs)\<close>, \<^verbatim>\<open>max(xs)\<close> and \<^verbatim>\<open>sum(xs) / len(xs)\<close> on a list of floats.\<close>

definition py_min :: "'f float_ops \<Rightarrow> 'f list \<Rightarrow> exn + 'f" where
  "py_min ops xs =
     (case xs of
        [] \<Rightarrow> Inl (ValueError ''min() arg is an empty sequence'')
      | x # r \<Rightarrow> Inr (foldl (\<lambda>m v. if fl_less ops v m then v else m) x r))"

definition py_max :: "'f float_ops \<Rightarrow> 'f list \<Rightarrow> exn + 'f" where
  "py_max ops xs =
     (case xs of
        [] \<Rightarrow> Inl (ValueError ''max() arg is an empty sequence'')
      | x # r \<Rightarrow> Inr (foldl (\<lambda>m v. if fl_less ops m v then v else m) x r))"

definition py_avg :: "'f float_ops \<Rightarrow> 'f list \<Rightarrow> exn + 'f" where
  "py_avg ops xs =
     (if length xs = 0 then Inl (ZeroDivisionError ''division by zero'')
      else Inr (fl_div ops (foldl (fl_add ops) (fl_of_int ops 0) xs)
                  (fl_of_int ops (int (length xs)))))"

text \<open>\<^verbatim>\<open>class Valves\<close>, with its defaults.\<close>

record 'f valves =
  packet_count :: int
  timeout_seconds :: int
  tcp_default_port :: int
  tcp_attempts :: int
  tcp_timeout_seconds :: 'f

definition default_valves :: "'f float_ops \<Rightarrow> 'f valves" where
  "default_valves ops =
     \<lparr>packet_count = 4, timeout_seconds = 5, tcp_default_port = 443, tcp_attempts = 4,
      tcp_timeout_seconds = fl_of_int ops 2\<rparr>"

subsection \<open>The ICMP attempt\<close>

fun first_found :: "(string \<Rightarrow> string option) \<Rightarrow> string list \<Rightarrow> string option" where
  "first_found w [] = None"
| "first_found w (cand # cands) =
     (case w cand of
        Some p \<Rightarrow> if p \<noteq> [] then Some p else first_found w cands
      | None \<Rightarrow> first_found w cands)"

definition find_ping :: "'f env \<Rightarrow> string option" where
  "find_ping env =
     first_found (which env)
       [''ping'', ''/bin/ping'', ''/usr/bin/ping'', ''/sbin/ping'', ''/usr/sbin/ping'']"

text \<open>
  The command line \<^verbatim>\<open>cmd\<close> of \<^verbatim>\<open>_icmp_ping\<close>. It is built before the \<^verbatim>\<open>try\<close>, so a
  ValueError of \<^verbatim>\<open>str(count)\<close> or \<^verbatim>\<open>str(timeout)\<close> is not caught.
\<close>

definition icmp_cmd :: "'f env \<Rightarrow> string \<Rightarrow> string \<Rightarrow> int \<Rightarrow> int \<Rightarrow> exn + string list" where
  "icmp_cmd env ping_path host count timeout =
     (let os_name = py_lower (platform_system env)
      in if py_in ''windows'' os_name
         then (case str_int count of
                 Inl e \<Rightarrow> Inl e
               | Inr c \<Rightarrow>
                   (case str_int (timeout * 1000) of
                      Inl e \<Rightarrow> Inl e
                    | Inr t \<Rightarrow> Inr [ping_path, ''-n'', c, ''-w'', t, host]))
         else (case str_int count of
                 Inl e \<Rightarrow> Inl e
               | Inr c \<Rightarrow>
                   (case str_int timeout of
                      Inl e \<Rightarrow> Inl e
                    | Inr t \<Rightarrow> Inr [ping_path, ''-c'', c, ''-W'', t, host])))"

text \<open>
  \<^verbatim>\<open>_icmp_ping(host, count, timeout)\<close>: the result \<^verbatim>\<open>(ok, stdout, stderr)\<close>, or the
  exception that leaves the call, and the events so far.
\<close>

definition icmp_ping ::
  "'f env \<Rightarrow> string \<Rightarrow> int \<Rightarrow> int \<Rightarrow> 'f event list \<Rightarrow>
   (exn + (bool \<times> string \<times> string)) \<times> 'f event list"
where
  "icmp_ping env host count timeout tr =
     (case find_ping env of
        None \<Rightarrow> (Inr (False, [], ''ping binary not found inside the container''), tr)
      | Some ping_path \<Rightarrow>
          (case icmp_cmd env ping_path host count timeout of
             Inl e \<Rightarrow> (Inl e, tr)
           | Inr cmd \<Rightarrow>
               (case subprocess_run env tr cmd of
                  Inl e \<Rightarrow> (Inr (False, [], str_exn e), tr @ [SubprocessRun cmd])
                | Inr (returncode, out, err) \<Rightarrow>
                    (Inr (returncode = 0, out, err), tr @ [SubprocessRun cmd]))))"

definition icmp_header_unix :: string where
  "icmp_header_unix =
     ''| Type | Host | Sent | Received | Loss | Min (ms) | Avg (ms) | Max (ms) | Mdev/Stddev (ms) |''"

definition icmp_header_win :: string where
  "icmp_header_win =
     ''| Type | Host | Sent | Received | Loss | Min (ms) | Avg (ms) | Max (ms) |''"

definition format_icmp_table :: "'f env \<Rightarrow> string \<Rightarrow> string \<Rightarrow> string \<Rightarrow> string option" where
  "format_icmp_table env host out err =
     (let text = or_str out [] @ ''\<newline>'' @ or_str err [];
          os_name = py_lower (platform_system env)
      in case re_search re_packets_unix text of
           Some m_pkt \<Rightarrow>
             (let tx = group m_pkt ''tx''; rx = group m_pkt ''rx''; loss = group m_pkt ''loss'';
                  (min_v, avg_v, max_v, mdev_v) =
                    (case re_search re_rtt_unix text of
                       Some m_rtt \<Rightarrow> (group m_rtt ''min'', group m_rtt ''avg'',
                                      group m_rtt ''max'', group m_rtt ''mdev'')
                     | None \<Rightarrow> (''-'', ''-'', ''-'', ''-''))
              in Some (py_join ''\<newline>''
                   [icmp_header_unix,
                    ''|---|---|---:|---:|---:|---:|---:|---:|---:|'',
                    ''| ICMP | '' @ host @ '' | '' @ tx @ '' | '' @ rx @ '' | '' @ loss @
                    ''% | '' @ min_v @ '' | '' @ avg_v @ '' | '' @ max_v @ '' | '' @ mdev_v @ '' |'']))
         | None \<Rightarrow>
             (case re_search re_packets_win text of
                Some m_pkt \<Rightarrow>
                  (let tx = group m_pkt ''tx''; rx = group m_pkt ''rx''; loss = group m_pkt ''loss'';
                       (min_v, avg_v, max_v) =
                         (case re_search re_rtt_win text of
                            Some m_rtt \<Rightarrow> (group m_rtt ''min'', group m_rtt ''avg'',
                                           group m_rtt ''max'')
                          | None \<Rightarrow> (''-'', ''-'', ''-''))
                   in Some (py_join ''\<newline>''
                        [icmp_header_win,
                         ''|---|---|---:|---:|---:|---:|---:|---:|'',
                         ''| ICMP | '' @ host @ '' | '' @ tx @ '' | '' @ rx @ '' | '' @ loss @
                         ''% | '' @ min_v @ '' | '' @ avg_v @ '' | '' @ max_v @ '' |'']))
              | None \<Rightarrow> None))"

subsection \<open>The TCP fallback\<close>

text \<open>
  One round of the loop of \<^verbatim>\<open>_tcp_ping\<close> per attempt left. The clock is read, the
  connection is tried; when it is made the clock is read again, the sample is appended and
  the code sleeps; when it raises, the message is appended.
\<close>

fun tcp_loop ::
  "'f env \<Rightarrow> 'f float_ops \<Rightarrow> string \<Rightarrow> int \<Rightarrow> 'f \<Rightarrow> nat \<Rightarrow> 'f list \<times> string list \<Rightarrow>
   'f event list \<Rightarrow> ('f list \<times> string list) \<times> 'f event list"
where
  "tcp_loop env ops host port timeout 0 acc tr = (acc, tr)"
| "tcp_loop env ops host port timeout (Suc n) (samples_ms, errors) tr =
     (let t0 = perf_counter env tr;
          tr1 = tr @ [PerfCounter];
          tr2 = tr1 @ [CreateConnection host port timeout]
      in case create_connection env tr1 host port timeout of
           Inl e \<Rightarrow> tcp_loop env ops host port timeout n (samples_ms, errors @ [str_exn e]) tr2
         | Inr u \<Rightarrow>
             (let dt_ms = fl_mul ops (fl_sub ops (perf_counter env tr2) t0) (fl_of_int ops 1000)
              in tcp_loop env ops host port timeout n (samples_ms @ [dt_ms], errors)
                   (tr2 @ [PerfCounter, Sleep])))"

text \<open>\<^verbatim>\<open>range(attempts)\<close> has \<open>nat attempts\<close> elements: none when \<open>attempts\<close> is negative.\<close>

definition tcp_ping ::
  "'f env \<Rightarrow> 'f float_ops \<Rightarrow> string \<Rightarrow> int \<Rightarrow> int \<Rightarrow> 'f \<Rightarrow> 'f event list \<Rightarrow>
   ('f list \<times> string list) \<times> 'f event list"
where
  "tcp_ping env ops host port attempts timeout tr =
     tcp_loop env ops host port timeout (nat attempts) ([], []) tr"

definition tcp_header :: string where
  "tcp_header =
     ''| Type | Host | Port | Attempts | Success | Fail | Min (ms) | Avg (ms) | Max (ms) |''"

text \<open>The minimum, average and maximum of the samples, \<^verbatim>\<open>float("nan")\<close> when there are none.\<close>

definition tcp_stats ::
  "'f float_ops \<Rightarrow> 'f list \<Rightarrow> exn + ('f pyfloat \<times> 'f pyfloat \<times> 'f pyfloat)" where
  "tcp_stats ops samples_ms =
     (if samples_ms \<noteq> []
      then (case py_min ops samples_ms of
              Inl e \<Rightarrow> Inl e
            | Inr mn \<Rightarrow>
                (case py_max ops samples_ms of
                   Inl e \<Rightarrow> Inl e
                 | Inr mx \<Rightarrow>
                     (case py_avg ops samples_ms of
                        Inl e \<Rightarrow> Inl e
                      | Inr avg \<Rightarrow> Inr (Finite mn, Finite avg, Finite mx))))
      else Inr (NaN, NaN, NaN))"

text \<open>The rows of the per-attempt table and of the error table.\<close>

definition attempt_rows :: "'f float_ops \<Rightarrow> 'f list \<Rightarrow> string list" where
  "attempt_rows ops samples_ms =
     (if samples_ms \<noteq> []
      then map (\<lambda>(i, v). ''| '' @ str_nat i @ '' | '' @ fl_format_1f ops v @ '' |'')
             (enumerate 1 samples_ms)
      else [''| 1 | failed |''])"

definition error_rows :: "string list \<Rightarrow> string list" where
  "error_rows errors = map (\<lambda>e. ''| '' @ e @ '' |'') (take 3 errors)"

text \<open>
  The summary row, an f-string: the fields are converted from left to right, and the
  conversion of \<^verbatim>\<open>port\<close>, \<^verbatim>\<open>attempts\<close> or \<^verbatim>\<open>fail\<close> may raise.
\<close>

definition summary_row ::
  "'f float_ops \<Rightarrow> string \<Rightarrow> int \<Rightarrow> int \<Rightarrow> nat \<Rightarrow> int \<Rightarrow>
   'f pyfloat \<Rightarrow> 'f pyfloat \<Rightarrow> 'f pyfloat \<Rightarrow> exn + string" where
  "summary_row ops host port attempts ok fail mn avg mx =
     (case str_int port of
        Inl e \<Rightarrow> Inl e
      | Inr port_s \<Rightarrow>
          (case str_int attempts of
             Inl e \<Rightarrow> Inl e
           | Inr attempts_s \<Rightarrow>
               (case str_int fail of
                  Inl e \<Rightarrow> Inl e
                | Inr fail_s \<Rightarrow>
                    Inr (''| TCP | '' @ host @ '' | '' @ port_s @ '' | '' @ attempts_s @
                         '' | '' @ str_nat ok @ '' | '' @ fail_s @ '' | '' @ format_1f ops mn @
                         '' | '' @ format_1f ops avg @ '' | '' @ format_1f ops mx @ '' |''))))"

definition format_tcp_table ::
  "'f float_ops \<Rightarrow> string \<Rightarrow> int \<Rightarrow> 'f list \<Rightarrow> int \<Rightarrow> string list \<Rightarrow> exn + string" where
  "format_tcp_table ops host port samples_ms attempts errors =
     (let ok = length samples_ms;
          fail = attempts - int ok
      in case tcp_stats ops samples_ms of
           Inl e \<Rightarrow> Inl e
         | Inr (mn, avg, mx) \<Rightarrow>
             (case summary_row ops host port attempts ok fail mn avg mx of
                Inl e \<Rightarrow> Inl e
              | Inr row \<Rightarrow>
                  Inr (py_join ''\<newline>''
                    ([tcp_header,
                      ''|---|---|---:|---:|---:|---:|---:|---:|---:|'',
                      row] @
                     (if attempts > 1
                      then [[], ''| Attempt | Latency (ms) |'', ''|---:|---:|''] @
                           attempt_rows ops samples_ms
                      else []) @
                     (if errors \<noteq> []
                      then [[], ''| Errors |'', ''|---|''] @ error_rows errors
                      else [])))))"

subsection \<open>The tool\<close>

definition fallback_keywords :: "string list" where
  "fallback_keywords =
     [''not found'', ''operation not permitted'', ''permission denied'', ''cap_net_raw'', ''icmp'']"

definition unparsed_table :: "string \<Rightarrow> string" where
  "unparsed_table host =
     ''| Type | Host | Note |\<newline>|---|---|---|\<newline>| ICMP | '' @ host @
     '' | Success (unparsed output) |''"

text \<open>
  \<^verbatim>\<open>Tools.ping(target, count, timeout)\<close>, from the events \<open>tr\<close> so far: the returned
  string, or the exception that leaves the call, and the events after it.
\<close>

definition ping ::
  "'f env \<Rightarrow> 'f float_ops \<Rightarrow> 'f valves \<Rightarrow> string \<Rightarrow> int option \<Rightarrow> int option \<Rightarrow> 'f event list \<Rightarrow>
   (exn + string) \<times> 'f event list"
where
  "ping env ops v target count timeout tr =
     (case sanitize target of
        None \<Rightarrow> (Inr ''Invalid target'', tr)
      | Some t \<Rightarrow>
          if t = [] then (Inr ''Invalid target'', tr)
          else
            (case split_host_port t of
               Inl e \<Rightarrow> (Inl e, tr)
             | Inr (host, port) \<Rightarrow>
                 (let cnt = or_int count (packet_count v);
                      tmo = or_int timeout (timeout_seconds v)
                  in case icmp_ping env host cnt tmo tr of
                       (Inl e, tr1) \<Rightarrow> (Inl e, tr1)
                     | (Inr (ok, out, err), tr1) \<Rightarrow>
                         if ok
                         then (case format_icmp_table env host out err of
                                 Some table \<Rightarrow>
                                   if table \<noteq> [] then (Inr table, tr1)
                                   else (Inr (unparsed_table host), tr1)
                               | None \<Rightarrow> (Inr (unparsed_table host), tr1))
                         else
                           (let icmp_reason =
                                  py_lower (or_str (py_strip err)
                                    (or_str (py_strip out) ''ICMP ping failed''))
                            in if list_ex (\<lambda>k. py_in k icmp_reason) fallback_keywords
                               then
                                 (let p = or_int port (tcp_default_port v)
                                  in case tcp_ping env ops host p (tcp_attempts v)
                                            (tcp_timeout_seconds v) tr1 of
                                       ((samples, errors), tr2) \<Rightarrow>
                                         (format_tcp_table ops host p samples (tcp_attempts v)
                                            errors, tr2))
                               else (Inr (or_str (py_strip err)
                                            (or_str (py_strip out) ''Ping failed'')), tr1)))))"

text \<open>\<^verbatim>\<open>Tools.use_ping(target)\<close>\<close>

definition use_ping ::
  "'f env \<Rightarrow> 'f float_ops \<Rightarrow> 'f valves \<Rightarrow> string \<Rightarrow> 'f event list \<Rightarrow> (exn + string) \<times> 'f event list"
where
  "use_ping env ops v target tr = ping env ops v target None None tr"

subsection \<open>Observing the events, and a world to run the tool in\<close>

text \<open>The events that are connection attempts, and those that start a subprocess.\<close>

fun is_connection :: "'f event \<Rightarrow> bool" where
  "is_connection (CreateConnection host port timeout) = True"
| "is_connection ev = False"

fun is_subprocess :: "'f event \<Rightarrow> bool" where
  "is_subprocess (SubprocessRun cmd) = True"
| "is_subprocess ev = False"

text \<open>
  A concrete world, for running the model on inputs: floats are natural numbers, the clock
  shows the number of events so far, the platform is Linux. The lookup \<open>w\<close>, the answer
  \<open>run\<close> of the subprocess and the answer \<open>conn\<close> of the network are parameters.
\<close>

definition tick_ops :: "nat float_ops" where
  "tick_ops =
     \<lparr>fl_add = (\<lambda>a b. a + b), fl_sub = (\<lambda>a b. a - b), fl_mul = (\<lambda>a b. a * b),
      fl_div = (\<lambda>a b. a div b), fl_less = (\<lambda>a b. a < b), fl_of_int = nat,
      fl_format_1f = (\<lambda>n. str_nat n @ ''.0'')\<rparr>"

definition tick_env ::
  "(string \<Rightarrow> string option) \<Rightarrow> (exn + (int \<times> string \<times> string)) \<Rightarrow>
   (nat event list \<Rightarrow> exn + unit) \<Rightarrow> nat env"
where
  "tick_env w run conn =
     \<lparr>which = w, platform_system = ''Linux'', subprocess_run = (\<lambda>tr cmd. run),
      perf_counter = (\<lambda>tr. length tr),
      create_connection = (\<lambda>tr host port timeout. conn tr)\<rparr>"

definition no_ping :: "string \<Rightarrow> string option" where
  "no_ping cand = None"

definition usr_bin_ping :: "string \<Rightarrow> string option" where
  "usr_bin_ping cand = (if cand = ''ping'' then Some ''/usr/bin/ping'' else None)"

definition refused :: "nat event list \<Rightarrow> exn + unit" where
  "refused tr = Inl (RaisedException ''[Errno 111] Connection refused'')"

text \<open>The network that accepts the first connection of a call and refuses the later ones.\<close>

definition first_only :: "nat event list \<Rightarrow> exn + unit" where
  "first_only tr =
     (if filter is_connection tr = [] then Inr ()
      else Inl (RaisedException ''[Errno 111] Connection refused''))"


section \<open>Evaluation of the builtins\<close>

text \<open>The equation of \<open>str_nat\<close> is used only where a numeral is rendered.\<close>

declare str_nat.simps [simp del]

text \<open>The equations of the matcher are used only where a pattern is run.\<close>

declare re_search.simps [simp del]

declare re_match.simps [simp del]

text \<open>\<^verbatim>\<open>str.lower\<close> on the printable ASCII characters, the newline and the tab.\<close>

lemma lower_char_ascii:
  "lower_char (CHR 0x20) = CHR 0x20"
  "lower_char (CHR 0x21) = CHR 0x21"
  "lower_char (CHR 0x22) = CHR 0x22"
  "lower_char (CHR 0x23) = CHR 0x23"
  "lower_char (CHR 0x24) = CHR 0x24"
  "lower_char (CHR 0x25) = CHR 0x25"
  "lower_char (CHR 0x26) = CHR 0x26"
  "lower_char (CHR 0x27) = CHR 0x27"
  "lower_char (CHR 0x28) = CHR 0x28"
  "lower_char (CHR 0x29) = CHR 0x29"
  "lower_char (CHR 0x2A) = CHR 0x2A"
  "lower_char (CHR 0x2B) = CHR 0x2B"
  "lower_char (CHR 0x2C) = CHR 0x2C"
  "lower_char (CHR 0x2D) = CHR 0x2D"
  "lower_char (CHR 0x2E) = CHR 0x2E"
  "lower_char (CHR 0x2F) = CHR 0x2F"
  "lower_char (CHR ''0'') = CHR ''0''"
  "lower_char (CHR ''1'') = CHR ''1''"
  "lower_char (CHR ''2'') = CHR ''2''"
  "lower_char (CHR ''3'') = CHR ''3''"
  "lower_char (CHR ''4'') = CHR ''4''"
  "lower_char (CHR ''5'') = CHR ''5''"
  "lower_char (CHR ''6'') = CHR ''6''"
  "lower_char (CHR ''7'') = CHR ''7''"
  "lower_char (CHR ''8'') = CHR ''8''"
  "lower_char (CHR ''9'') = CHR ''9''"
  "lower_char (CHR 0x3A) = CHR 0x3A"
  "lower_char (CHR 0x3B) = CHR 0x3B"
  "lower_char (CHR 0x3C) = CHR 0x3C"
  "lower_char (CHR 0x3D) = CHR 0x3D"
  "lower_char (CHR 0x3E) = CHR 0x3E"
  "lower_char (CHR 0x3F) = CHR 0x3F"
  "lower_char (CHR 0x40) = CHR 0x40"
  "lower_char (CHR ''A'') = CHR ''a''"
  "lower_char (CHR ''B'') = CHR ''b''"
  "lower_char (CHR ''C'') = CHR ''c''"
  "lower_char (CHR ''D'') = CHR ''d''"
  "lower_char (CHR ''E'') = CHR ''e''"
  "lower_char (CHR ''F'') = CHR ''f''"
  "lower_char (CHR ''G'') = CHR ''g''"
  "lower_char (CHR ''H'') = CHR ''h''"
  "lower_char (CHR ''I'') = CHR ''i''"
  "lower_char (CHR ''J'') = CHR ''j''"
  "lower_char (CHR ''K'') = CHR ''k''"
  "lower_char (CHR ''L'') = CHR ''l''"
  "lower_char (CHR ''M'') = CHR ''m''"
  "lower_char (CHR ''N'') = CHR ''n''"
  "lower_char (CHR ''O'') = CHR ''o''"
  "lower_char (CHR ''P'') = CHR ''p''"
  "lower_char (CHR ''Q'') = CHR ''q''"
  "lower_char (CHR ''R'') = CHR ''r''"
  "lower_char (CHR ''S'') = CHR ''s''"
  "lower_char (CHR ''T'') = CHR ''t''"
  "lower_char (CHR ''U'') = CHR ''u''"
  "lower_char (CHR ''V'') = CHR ''v''"
  "lower_char (CHR ''W'') = CHR ''w''"
  "lower_char (CHR ''X'') = CHR ''x''"
  "lower_char (CHR ''Y'') = CHR ''y''"
  "lower_char (CHR ''Z'') = CHR ''z''"
  "lower_char (CHR 0x5B) = CHR 0x5B"
  "lower_char (CHR 0x5C) = CHR 0x5C"
  "lower_char (CHR 0x5D) = CHR 0x5D"
  "lower_char (CHR 0x5E) = CHR 0x5E"
  "lower_char (CHR 0x5F) = CHR 0x5F"
  "lower_char (CHR 0x60) = CHR 0x60"
  "lower_char (CHR ''a'') = CHR ''a''"
  "lower_char (CHR ''b'') = CHR ''b''"
  "lower_char (CHR ''c'') = CHR ''c''"
  "lower_char (CHR ''d'') = CHR ''d''"
  "lower_char (CHR ''e'') = CHR ''e''"
  "lower_char (CHR ''f'') = CHR ''f''"
  "lower_char (CHR ''g'') = CHR ''g''"
  "lower_char (CHR ''h'') = CHR ''h''"
  "lower_char (CHR ''i'') = CHR ''i''"
  "lower_char (CHR ''j'') = CHR ''j''"
  "lower_char (CHR ''k'') = CHR ''k''"
  "lower_char (CHR ''l'') = CHR ''l''"
  "lower_char (CHR ''m'') = CHR ''m''"
  "lower_char (CHR ''n'') = CHR ''n''"
  "lower_char (CHR ''o'') = CHR ''o''"
  "lower_char (CHR ''p'') = CHR ''p''"
  "lower_char (CHR ''q'') = CHR ''q''"
  "lower_char (CHR ''r'') = CHR ''r''"
  "lower_char (CHR ''s'') = CHR ''s''"
  "lower_char (CHR ''t'') = CHR ''t''"
  "lower_char (CHR ''u'') = CHR ''u''"
  "lower_char (CHR ''v'') = CHR ''v''"
  "lower_char (CHR ''w'') = CHR ''w''"
  "lower_char (CHR ''x'') = CHR ''x''"
  "lower_char (CHR ''y'') = CHR ''y''"
  "lower_char (CHR ''z'') = CHR ''z''"
  "lower_char (CHR 0x7B) = CHR 0x7B"
  "lower_char (CHR 0x7C) = CHR 0x7C"
  "lower_char (CHR 0x7D) = CHR 0x7D"
  "lower_char (CHR 0x7E) = CHR 0x7E"
  "lower_char (CHR 0x0A) = CHR 0x0A"
  "lower_char (CHR 0x09) = CHR 0x09"
  by code_simp+

lemmas re_eval = re_search.simps re_match.simps lit_def push_def close_group_def is_digit_def
  py_isspace_def lower_char_ascii ci_prefix_def py_lower_def

lemma str_nat_digit: "n < 10 \<Longrightarrow> str_nat n = [''0123456789'' ! n]"
  by (simp add: str_nat.simps)

lemmas str_eval = str_int_def int_digits_def max_str_digits_def decimal_def str_nat.simps

lemma str_int_0: "str_int 0 = Inr ''0''"
  by (simp add: str_eval)

lemma str_int_4: "str_int 4 = Inr ''4''"
  by (simp add: str_eval)

lemma str_int_5: "str_int 5 = Inr ''5''"
  by (simp add: str_eval)

lemma str_int_443: "str_int 443 = Inr ''443''"
  by (simp add: str_eval)

lemma four_attempts: "(4::nat) = Suc (Suc (Suc (Suc 0)))"
  by simp

section \<open>The conversions between integers and strings\<close>

lemma str_nat_nonempty: "str_nat n \<noteq> []"
  by (subst str_nat.simps) simp


lemma str_nat_length_bound: "n < 10 ^ Suc k \<Longrightarrow> length (str_nat n) \<le> Suc k"
proof (induction k arbitrary: n)
  case 0
  then show ?case by (simp add: str_nat_digit)
next
  case (Suc k)
  show ?case
  proof (cases "n < 10")
    case True
    then show ?thesis by (simp add: str_nat_digit)
  next
    case False
    from Suc.prems have "n div 10 < 10 ^ Suc k" by (simp add: less_mult_imp_div_less mult.commute)
    from Suc.IH [OF this] False show ?thesis by (subst str_nat.simps) simp
  qed
qed


lemma int_digits_pos: "0 < int_digits i"
  by (simp add: int_digits_def str_nat_nonempty)



lemma str_int_within: "int_digits i \<le> max_str_digits \<Longrightarrow> str_int i = Inr (decimal i)"
  by (simp add: str_int_def)


lemma str_int_raises: "str_int i = Inl e \<Longrightarrow> e = str_limit_error"
  by (simp add: str_int_def split: if_splits)

lemma str_int_Inr_iff: "str_int i = Inr s \<longleftrightarrow> int_digits i \<le> max_str_digits \<and> s = decimal i"
  by (auto simp add: str_int_def)

lemma digit_val_le: "is_digit c \<Longrightarrow> digit_val c \<le> 9"
  by (auto simp add: is_digit_def digit_val_def)

lemma digits_fold_bound:
  "\<forall>c\<in>set ds. is_digit c \<Longrightarrow>
   foldl (\<lambda>a c. 10 * a + digit_val c) a ds < (Suc a) * 10 ^ length ds"
proof (induction ds arbitrary: a)
  case Nil
  then show ?case by simp
next
  case (Cons c ds)
  then have c: "digit_val c \<le> 9" by (simp add: digit_val_le)
  from Cons have "foldl (\<lambda>a c. 10 * a + digit_val c) (10 * a + digit_val c) ds
      < Suc (10 * a + digit_val c) * 10 ^ length ds"
    by simp
  also have "\<dots> \<le> (10 * Suc a) * 10 ^ length ds"
    using c by (intro mult_le_mono1) simp
  finally show ?case by (simp add: algebra_simps)
qed

lemma digits_ok_chars: "digits_ok s \<Longrightarrow> c \<in> set s \<Longrightarrow> is_digit c \<or> c = CHR ''_''"
  by (induction s rule: digits_ok.induct) (auto split: if_splits)

lemma digits_ok_filter:
  "digits_ok s \<Longrightarrow> filter (\<lambda>c. c \<noteq> CHR ''_'') s = filter is_digit s"
proof -
  assume ok: "digits_ok s"
  have "\<not> is_digit (CHR ''_'')" by (simp add: is_digit_def)
  with digits_ok_chars [OF ok] show ?thesis
    by (intro filter_cong) auto
qed

lemma digits_ok_has_digit: "digits_ok s \<Longrightarrow> filter is_digit s \<noteq> []"
  by (induction s rule: digits_ok.induct) auto

lemma digits_val_bound:
  assumes "digits_ok s" and "length (filter is_digit s) \<le> max_str_digits"
  shows "length (str_nat (digits_val s)) \<le> max_str_digits"
proof -
  let ?ds = "filter is_digit s"
  from digits_ok_has_digit [OF assms(1)] obtain k where k: "length ?ds = Suc k"
    by (cases ?ds) auto
  have "digits_val s = foldl (\<lambda>a c. 10 * a + digit_val c) 0 ?ds"
    by (simp add: digits_val_def digits_ok_filter [OF assms(1)])
  also have "\<dots> < Suc 0 * 10 ^ length ?ds"
    by (rule digits_fold_bound) simp
  finally have "digits_val s < 10 ^ Suc k" by (simp add: k)
  from str_nat_length_bound [OF this] assms(2) k show ?thesis by simp
qed

lemma py_int_within: "py_int s = Inr n \<Longrightarrow> int_digits n \<le> max_str_digits"
  by (auto simp add: py_int_def Let_def int_digits_def digits_val_bound split: if_splits)

lemma py_int_raises_ValueError:
  "py_int p = Inl e \<Longrightarrow> \<exists>m. e = ValueError m"
  by (auto simp: py_int_def Let_def split: if_splits)

section \<open>Sanitization\<close>

lemma py_strip_last: "py_strip s \<noteq> [] \<Longrightarrow> \<not> py_isspace (last (py_strip s))"
proof -
  assume ne: "py_strip s \<noteq> []"
  define w where "w = dropWhile py_isspace (rev (dropWhile py_isspace s))"
  from ne have "w \<noteq> []" by (simp add: py_strip_def w_def)
  then have "\<not> py_isspace (hd w)" unfolding w_def by (rule hd_dropWhile)
  moreover have "last (py_strip s) = hd w"
    using \<open>w \<noteq> []\<close> by (simp add: py_strip_def w_def [symmetric] last_rev)
  ultimately show ?thesis by simp
qed

lemma allowed_target_match_stripped:
  assumes "t = py_strip s" and "t \<noteq> []"
  shows "allowed_target_match t = (\<forall>c\<in>set t. allowed_char c)"
proof (cases "\<forall>c\<in>set t. allowed_char c")
  case True
  then have tw: "takeWhile allowed_char t = t" "dropWhile allowed_char t = []" by simp_all
  show ?thesis unfolding allowed_target_match_def Let_def tw using assms(2) True by simp
next
  case False
  then have r: "dropWhile allowed_char t \<noteq> []" by simp
  have "dropWhile allowed_char t \<noteq> ''\<newline>''"
  proof
    assume e: "dropWhile allowed_char t = ''\<newline>''"
    have "t = takeWhile allowed_char t @ dropWhile allowed_char t" by simp
    then have "last t = CHR ''\<newline>''" using e by (metis last_snoc)
    moreover have "\<not> py_isspace (last t)" using assms py_strip_last by blast
    ultimately show False by (simp add: py_isspace_def)
  qed
  with r False show ?thesis by (auto simp add: allowed_target_match_def Let_def)
qed

lemma sanitize_Some_iff:
  "sanitize target = Some t \<longleftrightarrow>
     t = py_strip target \<and> t \<noteq> [] \<and> (\<forall>c\<in>set t. allowed_char c)"
proof (cases "py_strip target = []")
  case True
  then show ?thesis by (auto simp add: sanitize_def)
next
  case False
  with allowed_target_match_stripped [OF refl False] show ?thesis
    by (auto simp add: sanitize_def Let_def)
qed

lemma sanitize_None_iff:
  "sanitize target = None \<longleftrightarrow>
     py_strip target = [] \<or> (\<exists>c\<in>set (py_strip target). \<not> allowed_char c)"
proof (cases "py_strip target = []")
  case True
  then show ?thesis by (simp add: sanitize_def)
next
  case False
  with allowed_target_match_stripped [OF refl False] show ?thesis
    by (simp add: sanitize_def Let_def)
qed

section \<open>Host and port parsing\<close>

lemma takeWhile_upto:
  "c \<notin> set h \<Longrightarrow> takeWhile (\<lambda>x. x \<noteq> c) (h @ c # rest) = h"
  by (induction h) auto

lemma dropWhile_upto:
  "c \<notin> set h \<Longrightarrow> dropWhile (\<lambda>x. x \<noteq> c) (h @ c # rest) = c # rest"
  by (induction h) auto

lemma unpack2_split1_found:
  "c \<notin> set h \<Longrightarrow> unpack2 (py_split1 c (h @ c # rest)) = Inr (h, rest)"
  by (simp add: py_split1_def takeWhile_upto dropWhile_upto)

lemma unpack2_split1_missing:
  "c \<notin> set s \<Longrightarrow> \<exists>e. unpack2 (py_split1 c s) = Inl e"
  by (simp add: py_split1_def)

lemma unpack2_rsplit1_found:
  "c \<notin> set p \<Longrightarrow> unpack2 (py_rsplit1 c (h @ c # p)) = Inr (h, p)"
  by (simp add: py_rsplit1_def takeWhile_upto dropWhile_upto)


lemma split_bracketed_closed:
  assumes "CHR '']'' \<notin> set h"
  shows "split_bracketed (''['' @ h @ '']'' @ rest) =
           (if py_startswith rest '':''
            then (case py_int (tl rest) of Inl e \<Rightarrow> Inl e | Inr n \<Rightarrow> Inr (h, Some n))
            else Inr (h, None))"
  using assms by (simp add: split_bracketed_def unpack2_split1_found)

lemma split_bracketed_open:
  assumes "CHR '']'' \<notin> set (tl t)"
  shows "\<exists>e. split_bracketed t = Inl e"
  using unpack2_split1_missing [OF assms] by (auto simp: split_bracketed_def)


lemma one_colon_parts:
  assumes "count_list (h @ '':'' @ p) (CHR '':'') = 1"
  shows "CHR '':'' \<notin> set h \<and> CHR '':'' \<notin> set p"
  using assms by (simp add: count_list_0_iff)

lemma split_colon:
  assumes nb: "\<not> py_startswith (h @ '':'' @ p) ''[''"
      and one: "count_list (h @ '':'' @ p) (CHR '':'') = 1"
  shows "split_host_port (h @ '':'' @ p) =
          (case py_int p of Inl e \<Rightarrow> Inr (h @ '':'' @ p, None) | Inr n \<Rightarrow> Inr (h, Some n))"
proof -
  from one_colon_parts [OF one] have np: "CHR '':'' \<notin> set p" by simp
  have u: "unpack2 (py_rsplit1 (CHR '':'') (h @ '':'' @ p)) = Inr (h, p)"
    using unpack2_rsplit1_found [OF np, of h] by simp
  show ?thesis
  proof (cases "py_int p")
    case (Inl e)
    then obtain m where "e = ValueError m" using py_int_raises_ValueError by blast
    with Inl u nb one show ?thesis by (simp add: split_host_port_def)
  next
    case (Inr n)
    with u nb one show ?thesis by (simp add: split_host_port_def)
  qed
qed

text \<open>
  Claim C3 (amended). Host/port parsing of a target \<open>t\<close>. When \<open>t\<close> starts with an opening
  bracket: without a closing bracket after it the whole string is the host and there is no
  port; with one, the text \<open>h\<close> between the opening bracket and the first closing bracket is
  the host; when the text after that closing bracket is \<open>:p\<close> the port is \<open>int(p)\<close>, or the
  whole string is the host with no port when \<open>int(p)\<close> raises; when the text after the closing
  bracket does not start with a colon it is dropped and there is no port. When \<open>t\<close> does not
  start with an opening bracket: with more than one colon the whole string is the host and
  there is no port; with exactly one colon, \<open>t = h:p\<close>, the host is \<open>h\<close> and the port
  \<open>int(p)\<close>, or the whole string is the host with no port when \<open>int(p)\<close> raises; with no
  colon the whole string is the host and there is no port.
\<close>

theorem split_host_port_cases:
  "(py_startswith t ''['' \<longrightarrow>
      (CHR '']'' \<notin> set (tl t) \<longrightarrow> split_host_port t = Inr (t, None)) \<and>
      (\<forall>h rest. t = ''['' @ h @ '']'' @ rest \<and> CHR '']'' \<notin> set h \<longrightarrow>
         (\<not> py_startswith rest '':'' \<longrightarrow> split_host_port t = Inr (h, None)) \<and>
         (\<forall>p. rest = '':'' @ p \<longrightarrow>
            split_host_port t =
              (case py_int p of Inl e \<Rightarrow> Inr (t, None) | Inr n \<Rightarrow> Inr (h, Some n))))) \<and>
   (\<not> py_startswith t ''['' \<longrightarrow>
      (count_list t (CHR '':'') > 1 \<longrightarrow> split_host_port t = Inr (t, None)) \<and>
      (count_list t (CHR '':'') = 1 \<longrightarrow>
         (\<forall>h p. t = h @ '':'' @ p \<longrightarrow>
            split_host_port t =
              (case py_int p of Inl e \<Rightarrow> Inr (t, None) | Inr n \<Rightarrow> Inr (h, Some n)))) \<and>
      (count_list t (CHR '':'') = 0 \<longrightarrow> split_host_port t = Inr (t, None)))"
proof (intro conjI impI allI)
  assume "py_startswith t ''[''" "CHR '']'' \<notin> set (tl t)"
  then show "split_host_port t = Inr (t, None)"
    using split_bracketed_open [of t] by (auto simp: split_host_port_def)
next
  fix h rest
  assume b: "py_startswith t ''[''" and t: "t = ''['' @ h @ '']'' @ rest \<and> CHR '']'' \<notin> set h"
    and r: "\<not> py_startswith rest '':''"
  then show "split_host_port t = Inr (h, None)"
    using split_bracketed_closed [of h rest] by (simp add: split_host_port_def)
next
  fix h rest p
  assume b: "py_startswith t ''[''" and t: "t = ''['' @ h @ '']'' @ rest \<and> CHR '']'' \<notin> set h"
    and r: "rest = '':'' @ p"
  have "py_startswith rest '':''" using r by (simp add: py_startswith_def)
  then have "split_bracketed t = (case py_int p of Inl e \<Rightarrow> Inl e | Inr n \<Rightarrow> Inr (h, Some n))"
    using split_bracketed_closed [of h rest] t r by simp
  then show "split_host_port t = (case py_int p of Inl e \<Rightarrow> Inr (t, None) | Inr n \<Rightarrow> Inr (h, Some n))"
    using b by (simp add: split_host_port_def split: sum.splits)
next
  assume "\<not> py_startswith t ''[''" "1 < count_list t (CHR '':'')"
  then show "split_host_port t = Inr (t, None)" by (simp add: split_host_port_def)
next
  fix h p
  assume "\<not> py_startswith t ''[''" "count_list t (CHR '':'') = 1" "t = h @ '':'' @ p"
  then show "split_host_port t = (case py_int p of Inl e \<Rightarrow> Inr (t, None) | Inr n \<Rightarrow> Inr (h, Some n))"
    using split_colon [of h p] by (cases "py_int p") simp_all
next
  assume "\<not> py_startswith t ''[''" "count_list t (CHR '':'') = 0"
  then show "split_host_port t = Inr (t, None)"
    by (simp add: split_host_port_def count_list_0_iff)
qed

lemmas int_eval = py_int_def int_space_def py_startswith_def digits_val_def digit_val_def
  is_digit_def max_str_digits_def Let_def

lemma py_int_8080: "py_int ''8080'' = Inr 8080"
  by (simp add: int_eval)

lemma py_int_9999: "py_int ''9999'' = Inr 9999"
  by (simp add: int_eval)

lemma py_int_abc: "\<exists>e. py_int ''abc'' = Inl e"
  by (simp add: int_eval)

theorem split_host_port_cases_witness:
  "split_host_port ''[2001:db8::1]:8080'' = Inr (''2001:db8::1'', Some 8080) \<and>
   split_host_port ''2001:db8::1'' = Inr (''2001:db8::1'', None) \<and>
   split_host_port ''example.com:9999'' = Inr (''example.com'', Some 9999) \<and>
   split_host_port ''example.com:abc'' = Inr (''example.com:abc'', None) \<and>
   split_host_port ''example.com'' = Inr (''example.com'', None)"
proof -
  have "split_host_port ''[2001:db8::1]:8080'' =
          (case py_int ''8080'' of Inl e \<Rightarrow> Inr (''[2001:db8::1]:8080'', None)
           | Inr n \<Rightarrow> Inr (''2001:db8::1'', Some n))"
    by (rule split_host_port_cases [of "''[2001:db8::1]:8080''", THEN conjunct1, rule_format,
          THEN conjunct2, rule_format, of "''2001:db8::1''" "'':8080''",
          THEN conjunct2, rule_format, of "''8080''"])
       (simp_all add: py_startswith_def)
  then have a: "split_host_port ''[2001:db8::1]:8080'' = Inr (''2001:db8::1'', Some 8080)"
    by (simp add: py_int_8080)
  have b: "split_host_port ''2001:db8::1'' = Inr (''2001:db8::1'', None)"
    by (rule split_host_port_cases [of "''2001:db8::1''", THEN conjunct2, rule_format,
          THEN conjunct1, rule_format])
       (simp_all add: py_startswith_def)
  have "split_host_port ''example.com:9999'' =
          (case py_int ''9999'' of Inl e \<Rightarrow> Inr (''example.com:9999'', None)
           | Inr n \<Rightarrow> Inr (''example.com'', Some n))"
    by (rule split_host_port_cases [of "''example.com:9999''", THEN conjunct2, rule_format,
          THEN conjunct2, THEN conjunct1, rule_format, of "''example.com''" "''9999''"])
       (simp_all add: py_startswith_def)
  then have c: "split_host_port ''example.com:9999'' = Inr (''example.com'', Some 9999)"
    by (simp add: py_int_9999)
  have "split_host_port ''example.com:abc'' =
          (case py_int ''abc'' of Inl e \<Rightarrow> Inr (''example.com:abc'', None)
           | Inr n \<Rightarrow> Inr (''example.com'', Some n))"
    by (rule split_host_port_cases [of "''example.com:abc''", THEN conjunct2, rule_format,
          THEN conjunct2, THEN conjunct1, rule_format, of "''example.com''" "''abc''"])
       (simp_all add: py_startswith_def)
  then have d: "split_host_port ''example.com:abc'' = Inr (''example.com:abc'', None)"
    using py_int_abc by auto
  have e: "split_host_port ''example.com'' = Inr (''example.com'', None)"
    by (rule split_host_port_cases [of "''example.com''", THEN conjunct2, rule_format,
          THEN conjunct2, THEN conjunct2, rule_format])
       (simp_all add: py_startswith_def)
  from a b c d e show ?thesis by simp
qed


text \<open>
  Claim C3 as stated does not hold: a target that starts with a bracket need not end with the
  port. The sanitized target \<^verbatim>\<open>[a]b:80\<close> has exactly one colon, yet it is parsed neither as
  host \<^verbatim>\<open>[a]b\<close> with port 80 nor as the whole string without a port: the text after the
  closing bracket is dropped. The same holds for \<^verbatim>\<open>[::1]x\<close>.
\<close>

theorem split_host_port_drops_text_after_bracket:
  "sanitize ''[a]b:80'' = Some ''[a]b:80'' \<and>
   count_list ''[a]b:80'' (CHR '':'') = 1 \<and>
   split_host_port ''[a]b:80'' = Inr (''a'', None) \<and>
   sanitize ''[::1]x'' = Some ''[::1]x'' \<and>
   split_host_port ''[::1]x'' = Inr (''::1'', None)"
proof -
  have 1: "sanitize ''[a]b:80'' = Some ''[a]b:80''"
    by (simp add: sanitize_Some_iff py_strip_def py_isspace_def allowed_char_def)
  have 2: "sanitize ''[::1]x'' = Some ''[::1]x''"
    by (simp add: sanitize_Some_iff py_strip_def py_isspace_def allowed_char_def)
  have "split_bracketed ''[a]b:80'' = Inr (''a'', None)"
    using split_bracketed_closed [of "''a''" "''b:80''"] by (simp add: py_startswith_def)
  then have 3: "split_host_port ''[a]b:80'' = Inr (''a'', None)"
    by (simp add: split_host_port_def py_startswith_def)
  have "split_bracketed ''[::1]x'' = Inr (''::1'', None)"
    using split_bracketed_closed [of "''::1''" "''x''"] by (simp add: py_startswith_def)
  then have 4: "split_host_port ''[::1]x'' = Inr (''::1'', None)"
    by (simp add: split_host_port_def py_startswith_def)
  from 1 2 3 4 show ?thesis by simp
qed

section \<open>The TCP probing loop\<close>

lemma tcp_loop_records:
  "tcp_loop env ops host port timeout n (ss, es) tr = ((ss', es'), tr') \<Longrightarrow>
   length ss' + length es' = length ss + length es + n"
proof (induction n arbitrary: ss es tr)
  case 0
  then show ?case by simp
next
  case (Suc n)
  show ?case
  proof (cases "create_connection env (tr @ [PerfCounter]) host port timeout")
    case (Inl e)
    with Suc.prems have
      "tcp_loop env ops host port timeout n (ss, es @ [str_exn e])
         (tr @ [PerfCounter] @ [CreateConnection host port timeout]) = ((ss', es'), tr')"
      by (simp add: Let_def)
    from Suc.IH [OF this] show ?thesis by simp
  next
    case (Inr u)
    with Suc.prems obtain d trn where
      "tcp_loop env ops host port timeout n (ss @ [d], es) trn = ((ss', es'), tr')"
      by (simp add: Let_def)
    from Suc.IH [OF this] show ?thesis by simp
  qed
qed

lemma tcp_loop_trace:
  "\<exists>new. snd (tcp_loop env ops host port timeout n acc tr) = tr @ new \<and>
         filter is_connection new = replicate n (CreateConnection host port timeout)"
proof (induction n arbitrary: acc tr)
  case 0
  show ?case by simp
next
  case (Suc n)
  obtain ss es where acc: "acc = (ss, es)" by (cases acc)
  show ?case
  proof (cases "create_connection env (tr @ [PerfCounter]) host port timeout")
    case (Inl e)
    let ?tr2 = "tr @ [PerfCounter] @ [CreateConnection host port timeout]"
    from Suc.IH [of "(ss, es @ [str_exn e])" ?tr2] obtain new where
      n: "snd (tcp_loop env ops host port timeout n (ss, es @ [str_exn e]) ?tr2) = ?tr2 @ new"
         "filter is_connection new = replicate n (CreateConnection host port timeout)"
      by blast
    let ?new = "[PerfCounter, CreateConnection host port timeout] @ new"
    have "snd (tcp_loop env ops host port timeout (Suc n) acc tr) = tr @ ?new"
      using Inl n(1) acc by (simp add: Let_def)
    moreover have "filter is_connection ?new = replicate (Suc n) (CreateConnection host port timeout)"
      using n(2) by simp
    ultimately show ?thesis by blast
  next
    case (Inr u)
    let ?tr2 = "tr @ [PerfCounter] @ [CreateConnection host port timeout]"
    let ?tr3 = "?tr2 @ [PerfCounter, Sleep]"
    let ?d = "fl_mul ops (fl_sub ops (perf_counter env ?tr2) (perf_counter env tr)) (fl_of_int ops 1000)"
    from Suc.IH [of "(ss @ [?d], es)" ?tr3] obtain new where
      n: "snd (tcp_loop env ops host port timeout n (ss @ [?d], es) ?tr3) = ?tr3 @ new"
         "filter is_connection new = replicate n (CreateConnection host port timeout)"
      by blast
    let ?new = "[PerfCounter, CreateConnection host port timeout, PerfCounter, Sleep] @ new"
    have "snd (tcp_loop env ops host port timeout (Suc n) acc tr) = tr @ ?new"
      using Inr n(1) acc by (simp add: Let_def)
    moreover have "filter is_connection ?new = replicate (Suc n) (CreateConnection host port timeout)"
      using n(2) by simp
    ultimately show ?thesis by blast
  qed
qed

text \<open>
  Claim C5. For every host, port, timeout and attempt count \<open>N \<ge> 0\<close>, whatever the
  network answers, the loop of \<^verbatim>\<open>_tcp_ping\<close> makes exactly \<open>N\<close> connection attempts,
  one after the other and each to the given host and port with the given timeout, and every
  attempt leaves exactly one record: the number of samples plus the number of errors is \<open>N\<close>.
\<close>

theorem tcp_ping_attempts:
  assumes "0 \<le> N"
      and "tcp_ping env ops host port N timeout tr = ((samples, errors), tr')"
  shows "int (length samples) + int (length errors) = N \<and>
         (\<exists>new. tr' = tr @ new \<and>
                filter is_connection new = replicate (nat N) (CreateConnection host port timeout))"
proof -
  from assms(2) have l: "tcp_loop env ops host port timeout (nat N) ([], []) tr = ((samples, errors), tr')"
    by (simp add: tcp_ping_def)
  from tcp_loop_records [OF l] assms(1) have "int (length samples) + int (length errors) = N"
    by simp
  moreover from tcp_loop_trace [of env ops host port timeout "nat N" "([], [])" tr] l
  have "\<exists>new. tr' = tr @ new \<and>
          filter is_connection new = replicate (nat N) (CreateConnection host port timeout)"
    by simp
  ultimately show ?thesis by blast
qed

lemma tcp_ping_first_only:
  "tcp_ping (tick_env no_ping run first_only) tick_ops ''a'' 443 4 2 [] =
     (([2000], [''[Errno 111] Connection refused'', ''[Errno 111] Connection refused'',
                ''[Errno 111] Connection refused'']),
      [PerfCounter, CreateConnection ''a'' 443 2, PerfCounter, Sleep,
       PerfCounter, CreateConnection ''a'' 443 2,
       PerfCounter, CreateConnection ''a'' 443 2,
       PerfCounter, CreateConnection ''a'' 443 2])"
  by (simp add: tcp_ping_def four_attempts tick_env_def tick_ops_def first_only_def Let_def)

theorem tcp_ping_attempts_witness:
  "tcp_ping (tick_env no_ping (Inr (0, [], [])) first_only) tick_ops ''a'' 443 4 2 [] =
     (([2000], [''[Errno 111] Connection refused'', ''[Errno 111] Connection refused'',
                ''[Errno 111] Connection refused'']),
      [PerfCounter, CreateConnection ''a'' 443 2, PerfCounter, Sleep,
       PerfCounter, CreateConnection ''a'' 443 2,
       PerfCounter, CreateConnection ''a'' 443 2,
       PerfCounter, CreateConnection ''a'' 443 2]) \<and>
   int (length [2000::nat]) +
   int (length [''[Errno 111] Connection refused'', ''[Errno 111] Connection refused'',
                ''[Errno 111] Connection refused'']) = 4 \<and>
   (\<exists>new. [PerfCounter, CreateConnection ''a'' 443 2, PerfCounter, Sleep,
           PerfCounter, CreateConnection ''a'' 443 2,
           PerfCounter, CreateConnection ''a'' 443 2,
           PerfCounter, CreateConnection ''a'' 443 (2::nat)] = [] @ new \<and>
          filter is_connection new = replicate (nat 4) (CreateConnection ''a'' 443 2))"
  using tcp_ping_attempts [OF _ tcp_ping_first_only [of "Inr (0, [], [])"]]
    tcp_ping_first_only [of "Inr (0, [], [])"]
  by simp

section \<open>The TCP report\<close>

lemma tcp_stats_no_samples: "tcp_stats ops [] = Inr (NaN, NaN, NaN)"
  by (simp add: tcp_stats_def)

lemma tcp_stats_total: "\<exists>r. tcp_stats ops xs = Inr r"
  by (cases xs) (simp_all add: tcp_stats_def py_min_def py_max_def py_avg_def)

lemma summary_row_within:
  assumes "int_digits port \<le> max_str_digits" and "int_digits attempts \<le> max_str_digits"
    and "int_digits fail \<le> max_str_digits"
  shows "summary_row ops host port attempts ok fail mn avg mx =
     Inr (''| TCP | '' @ host @ '' | '' @ decimal port @ '' | '' @ decimal attempts @
          '' | '' @ str_nat ok @ '' | '' @ decimal fail @ '' | '' @ format_1f ops mn @
          '' | '' @ format_1f ops avg @ '' | '' @ format_1f ops mx @ '' |'')"
  using assms by (simp add: summary_row_def str_int_within)

lemma summary_row_beyond:
  assumes "\<not> (int_digits port \<le> max_str_digits \<and> int_digits attempts \<le> max_str_digits \<and>
              int_digits fail \<le> max_str_digits)"
  shows "summary_row ops host port attempts ok fail mn avg mx = Inl str_limit_error"
  using assms by (auto simp add: summary_row_def str_int_def)

lemma summary_row_shape:
  "summary_row ops host port attempts ok fail mn avg mx = Inr row \<Longrightarrow>
   \<exists>rest. row = ''| TCP | '' @ host @ '' | '' @ decimal port @ '' | '' @ rest"
  by (auto simp add: summary_row_def str_int_def split: if_splits)

lemma summary_row_raises:
  "summary_row ops host port attempts ok fail mn avg mx = Inl e \<Longrightarrow> e = str_limit_error"
  by (auto simp add: summary_row_def str_int_def split: if_splits)



lemma format_tcp_table_raises:
  "format_tcp_table ops host port xs N errors = Inl e \<Longrightarrow> e = str_limit_error"
proof -
  assume a: "format_tcp_table ops host port xs N errors = Inl e"
  obtain mn avg mx where st: "tcp_stats ops xs = Inr (mn, avg, mx)"
    using tcp_stats_total [of ops xs] by (metis prod_cases3)
  from a show ?thesis
    by (auto simp add: format_tcp_table_def Let_def st dest: summary_row_raises split: sum.splits)
qed

lemma py_join_head: "\<exists>rest. py_join sep (c # rs) = c @ rest"
  by (cases rs) simp_all

lemma format_tcp_table_shape:
  assumes "format_tcp_table ops host port xs N errors = Inr s"
  shows "\<exists>rest. s = tcp_header @ ''\<newline>'' @ ''|---|---|---:|---:|---:|---:|---:|---:|---:|'' @
           ''\<newline>'' @ ''| TCP | '' @ host @ '' | '' @ decimal port @ '' | '' @ rest"
proof -
  obtain mn avg mx where st: "tcp_stats ops xs = Inr (mn, avg, mx)"
    using tcp_stats_total [of ops xs] by (metis prod_cases3)
  define rs where "rs =
    (if N > 1
     then [[], ''| Attempt | Latency (ms) |'', ''|---:|---:|''] @ attempt_rows ops xs
     else []) @
    (if errors \<noteq> [] then [[], ''| Errors |'', ''|---|''] @ error_rows errors else [])"
  from assms obtain row where
    row: "summary_row ops host port N (length xs) (N - int (length xs)) mn avg mx = Inr row"
    and s: "s = py_join ''\<newline>'' (tcp_header # ''|---|---|---:|---:|---:|---:|---:|---:|---:|'' #
                  row # rs)"
    by (auto simp add: format_tcp_table_def Let_def st rs_def split: sum.splits)
  from summary_row_shape [OF row] obtain d where
    d: "row = ''| TCP | '' @ host @ '' | '' @ decimal port @ '' | '' @ d" by blast
  obtain r where r: "py_join ''\<newline>'' (row # rs) = row @ r"
    using py_join_head by blast
  have "s = tcp_header @ ''\<newline>'' @ ''|---|---|---:|---:|---:|---:|---:|---:|---:|'' @
      ''\<newline>'' @ row @ r"
    using r by (simp add: s)
  also have "\<dots> = tcp_header @ ''\<newline>'' @ ''|---|---|---:|---:|---:|---:|---:|---:|---:|'' @
      ''\<newline>'' @ ''| TCP | '' @ host @ '' | '' @ decimal port @ '' | '' @ (d @ r)"
    by (simp add: d)
  finally show ?thesis by blast
qed

lemma str_nat_0: "str_nat 0 = ''0''"
  by (simp add: str_nat.simps)

lemma format_tcp_table_no_samples:
  "format_tcp_table ops host port [] N errors =
     (if int_digits port \<le> max_str_digits \<and> int_digits N \<le> max_str_digits
      then Inr (py_join ''\<newline>''
             ([tcp_header,
               ''|---|---|---:|---:|---:|---:|---:|---:|---:|'',
               ''| TCP | '' @ host @ '' | '' @ decimal port @ '' | '' @ decimal N @
               '' | 0 | '' @ decimal N @ '' | nan | nan | nan |''] @
              (if N > 1
               then [[], ''| Attempt | Latency (ms) |'', ''|---:|---:|'', ''| 1 | failed |'']
               else []) @
              (if errors \<noteq> []
               then [[], ''| Errors |'', ''|---|''] @ map (\<lambda>e. ''| '' @ e @ '' |'') (take 3 errors)
               else [])))
      else Inl str_limit_error)"
proof (cases "int_digits port \<le> max_str_digits \<and> int_digits N \<le> max_str_digits")
  case True
  then have "summary_row ops host port N 0 N NaN NaN NaN =
     Inr (''| TCP | '' @ host @ '' | '' @ decimal port @ '' | '' @ decimal N @
          '' | '' @ str_nat 0 @ '' | '' @ decimal N @ '' | '' @ format_1f ops NaN @
          '' | '' @ format_1f ops NaN @ '' | '' @ format_1f ops NaN @ '' |'')"
    by (intro summary_row_within) simp_all
  with True show ?thesis
    by (simp add: format_tcp_table_def tcp_stats_no_samples attempt_rows_def error_rows_def
        str_nat_0 Let_def)
next
  case False
  then have "summary_row ops host port N 0 N NaN NaN NaN = Inl str_limit_error"
    by (intro summary_row_beyond) simp
  with False show ?thesis
    by (simp add: format_tcp_table_def tcp_stats_no_samples Let_def)
qed

text \<open>
  Claim C4 (amended). Whenever the TCP probing loop ends without a single latency sample, it has
  recorded one error string per attempt, and the report is the TCP table whose summary row shows
  the configured attempt count \<open>N\<close>, Success \<open>0\<close>, Fail \<open>N\<close> and \<^verbatim>\<open>nan\<close> for the minimum,
  the average and the maximum latency; for \<open>N > 1\<close> it is followed by the per-attempt table with
  the single row \<^verbatim>\<open>| 1 | failed |\<close>, and for \<open>N > 0\<close> by the error table, which lists the first
  \<open>min 3 N\<close> recorded error strings in order, repeated strings included. This is the report
  for every port and every \<open>N\<close> of at most 4300 decimal digits; beyond that the conversion of
  the integer raises ValueError and there is no report.
\<close>

theorem tcp_all_failed_report:
  assumes "tcp_ping env ops host port N timeout tr = (([], errors), tr')"
  shows "length errors = nat N \<and>
         length (take 3 errors) = min 3 (nat N) \<and>
         format_tcp_table ops host port [] N errors =
           (if int_digits port \<le> max_str_digits \<and> int_digits N \<le> max_str_digits
            then Inr (py_join ''\<newline>''
                   ([tcp_header,
                     ''|---|---|---:|---:|---:|---:|---:|---:|---:|'',
                     ''| TCP | '' @ host @ '' | '' @ decimal port @ '' | '' @ decimal N @
                     '' | 0 | '' @ decimal N @ '' | nan | nan | nan |''] @
                    (if N > 1
                     then [[], ''| Attempt | Latency (ms) |'', ''|---:|---:|'', ''| 1 | failed |'']
                     else []) @
                    (if N > 0
                     then [[], ''| Errors |'', ''|---|''] @
                          map (\<lambda>e. ''| '' @ e @ '' |'') (take 3 errors)
                     else [])))
            else Inl str_limit_error)"
proof -
  from assms have "tcp_loop env ops host port timeout (nat N) ([], []) tr = (([], errors), tr')"
    by (simp add: tcp_ping_def)
  from tcp_loop_records [OF this] have len: "length errors = nat N" by simp
  then have "(errors \<noteq> []) = (N > 0)" by (cases errors) auto
  with len show ?thesis by (simp add: format_tcp_table_no_samples min.commute)
qed

lemma tcp_ping_refused:
  "tcp_ping (tick_env w run refused) tick_ops host port 4 2 tr =
     (([], [''[Errno 111] Connection refused'', ''[Errno 111] Connection refused'',
            ''[Errno 111] Connection refused'', ''[Errno 111] Connection refused'']),
      tr @ [PerfCounter, CreateConnection host port 2,
            PerfCounter, CreateConnection host port 2,
            PerfCounter, CreateConnection host port 2,
            PerfCounter, CreateConnection host port 2])"
  by (simp add: tcp_ping_def four_attempts tick_env_def refused_def Let_def)

lemma small_digits:
  "int_digits 0 \<le> max_str_digits" "int_digits 4 \<le> max_str_digits"
  "int_digits 5 \<le> max_str_digits" "int_digits 443 \<le> max_str_digits"
  by (simp_all add: int_digits_def max_str_digits_def str_nat.simps)

lemma small_decimals:
  "decimal 0 = ''0''" "decimal 4 = ''4''" "decimal 5 = ''5''" "decimal 443 = ''443''"
  by (simp_all add: decimal_def str_nat.simps)

lemma format_tcp_table_refused:
  "format_tcp_table ops host 443 [] 4
     [''[Errno 111] Connection refused'', ''[Errno 111] Connection refused'',
      ''[Errno 111] Connection refused'', ''[Errno 111] Connection refused''] =
   Inr (''| Type | Host | Port | Attempts | Success | Fail | Min (ms) | Avg (ms) | Max (ms) |\<newline>'' @
        ''|---|---|---:|---:|---:|---:|---:|---:|---:|\<newline>'' @
        ''| TCP | '' @ host @ '' | 443 | 4 | 0 | 4 | nan | nan | nan |\<newline>'' @
        ''\<newline>'' @
        ''| Attempt | Latency (ms) |\<newline>'' @
        ''|---:|---:|\<newline>'' @
        ''| 1 | failed |\<newline>'' @
        ''\<newline>'' @
        ''| Errors |\<newline>'' @
        ''|---|\<newline>'' @
        ''| [Errno 111] Connection refused |\<newline>'' @
        ''| [Errno 111] Connection refused |\<newline>'' @
        ''| [Errno 111] Connection refused |'')"
  by (simp add: format_tcp_table_no_samples tcp_header_def small_digits small_decimals)

theorem tcp_all_failed_report_witness:
  "tcp_ping (tick_env no_ping (Inr (0, [], [])) refused) tick_ops ''example.com'' 443 4 2 [] =
     (([], [''[Errno 111] Connection refused'', ''[Errno 111] Connection refused'',
            ''[Errno 111] Connection refused'', ''[Errno 111] Connection refused'']),
      [PerfCounter, CreateConnection ''example.com'' 443 2,
       PerfCounter, CreateConnection ''example.com'' 443 2,
       PerfCounter, CreateConnection ''example.com'' 443 2,
       PerfCounter, CreateConnection ''example.com'' 443 2]) \<and>
   format_tcp_table tick_ops ''example.com'' 443 [] 4
     [''[Errno 111] Connection refused'', ''[Errno 111] Connection refused'',
      ''[Errno 111] Connection refused'', ''[Errno 111] Connection refused''] =
   Inr (''| Type | Host | Port | Attempts | Success | Fail | Min (ms) | Avg (ms) | Max (ms) |\<newline>'' @
        ''|---|---|---:|---:|---:|---:|---:|---:|---:|\<newline>'' @
        ''| TCP | example.com | 443 | 4 | 0 | 4 | nan | nan | nan |\<newline>'' @
        ''\<newline>'' @
        ''| Attempt | Latency (ms) |\<newline>'' @
        ''|---:|---:|\<newline>'' @
        ''| 1 | failed |\<newline>'' @
        ''\<newline>'' @
        ''| Errors |\<newline>'' @
        ''|---|\<newline>'' @
        ''| [Errno 111] Connection refused |\<newline>'' @
        ''| [Errno 111] Connection refused |\<newline>'' @
        ''| [Errno 111] Connection refused |'')"
  using tcp_all_failed_report [OF tcp_ping_refused [of no_ping "Inr (0, [], [])" "''example.com''" 443 "[]"]]
    tcp_ping_refused [of no_ping "Inr (0, [], [])" "''example.com''" 443 "[]"]
  by (simp add: tcp_header_def small_digits small_decimals)

text \<open>
  Claim C4 as stated does not hold: the error table is \<^verbatim>\<open>errors[:3]\<close>, so four refused
  connections are reported as three identical rows, not as the one distinct error string.
\<close>

theorem error_rows_not_distinct:
  "format_tcp_table tick_ops ''h'' 443 [] 4 [''refused'', ''refused'', ''refused'', ''refused''] =
   Inr (''| Type | Host | Port | Attempts | Success | Fail | Min (ms) | Avg (ms) | Max (ms) |\<newline>'' @
        ''|---|---|---:|---:|---:|---:|---:|---:|---:|\<newline>'' @
        ''| TCP | h | 443 | 4 | 0 | 4 | nan | nan | nan |\<newline>'' @
        ''\<newline>'' @
        ''| Attempt | Latency (ms) |\<newline>'' @
        ''|---:|---:|\<newline>'' @
        ''| 1 | failed |\<newline>'' @
        ''\<newline>'' @
        ''| Errors |\<newline>'' @
        ''|---|\<newline>'' @
        ''| refused |\<newline>'' @
        ''| refused |\<newline>'' @
        ''| refused |'') \<and>
   error_rows [''refused'', ''refused'', ''refused'', ''refused''] =
     [''| refused |'', ''| refused |'', ''| refused |''] \<and>
   \<not> distinct (error_rows [''refused'', ''refused'', ''refused'', ''refused'']) \<and>
   remdups [''refused'', ''refused'', ''refused'', ''refused''] = [''refused''] \<and>
   error_rows [''refused'', ''refused'', ''refused'', ''refused''] \<noteq>
     map (\<lambda>e. ''| '' @ e @ '' |'') (take 3 (remdups [''refused'', ''refused'', ''refused'', ''refused'']))"
  by (simp add: format_tcp_table_no_samples tcp_header_def small_digits small_decimals
      error_rows_def)

section \<open>Running the tool in the concrete world\<close>


lemma find_ping_usr_bin: "find_ping (tick_env usr_bin_ping run conn) = Some ''/usr/bin/ping''"
  by (simp add: find_ping_def tick_env_def usr_bin_ping_def)


lemma linux_not_windows: "py_in ''windows'' (py_lower (platform_system (tick_env w run conn))) = False"
  by (simp add: tick_env_def py_lower_def lower_char_ascii py_startswith_def)

lemma icmp_cmd_linux:
  "icmp_cmd (tick_env w run conn) path host 4 5 = Inr [path, ''-c'', ''4'', ''-W'', ''5'', host]"
  by (simp add: icmp_cmd_def linux_not_windows str_int_4 str_int_5)

lemma subprocess_run_tick: "subprocess_run (tick_env w run conn) tr cmd = run"
  by (simp add: tick_env_def)

lemma icmp_ping_usr_bin:
  "icmp_ping (tick_env usr_bin_ping (Inr (rc, out, err)) conn) host 4 5 tr =
     (Inr (rc = 0, out, err),
      tr @ [SubprocessRun [''/usr/bin/ping'', ''-c'', ''4'', ''-W'', ''5'', host]])"
  by (simp add: icmp_ping_def find_ping_usr_bin icmp_cmd_linux subprocess_run_tick)


lemma default_valves_fields:
  "packet_count (default_valves ops) = 4"
  "timeout_seconds (default_valves ops) = 5"
  "tcp_default_port (default_valves ops) = 443"
  "tcp_attempts (default_valves ops) = 4"
  "tcp_timeout_seconds (default_valves ops) = fl_of_int ops 2"
  by (simp_all add: default_valves_def)

lemma tick_two: "fl_of_int tick_ops 2 = 2"
  by (simp add: tick_ops_def)

lemma or_int_None: "or_int None d = d"
  by (simp add: or_int_def)

lemma sanitize_padded: "sanitize '' a'' = Some ''a''"
  by (simp add: sanitize_Some_iff py_strip_def py_isspace_def allowed_char_def)

lemma sanitize_a: "sanitize ''a'' = Some ''a''"
  by (simp add: sanitize_Some_iff py_strip_def py_isspace_def allowed_char_def)

lemma split_host_port_plain:
  "\<not> py_startswith t ''['' \<Longrightarrow> CHR '':'' \<notin> set t \<Longrightarrow> split_host_port t = Inr (t, None)"
  by (simp add: split_host_port_def)

lemma split_host_port_a: "split_host_port ''a'' = Inr (''a'', None)"
  by (simp add: split_host_port_plain py_startswith_def)

lemma no_packets_unix_empty: "re_search re_packets_unix ''\<newline>'' = None"
  by (simp add: re_packets_unix_def re_eval)

lemma no_packets_win_empty: "re_search re_packets_win ''\<newline>'' = None"
  by (simp add: re_packets_win_def re_eval)

lemma format_icmp_table_empty: "format_icmp_table env host [] [] = None"
  by (simp add: format_icmp_table_def or_str_def no_packets_unix_empty no_packets_win_empty)

lemma py_strip_Nil: "py_strip [] = []"
  by (simp add: py_strip_def)

section \<open>Events and exceptions of the ICMP attempt and of the TCP loop\<close>

lemma icmp_cmd_raises: "icmp_cmd env path host c t = Inl e \<Longrightarrow> e = str_limit_error"
  by (auto simp add: icmp_cmd_def Let_def str_int_def split: if_splits)







lemma tcp_ping_trace:
  "tcp_ping env ops host port N timeout tr = (r, tr') \<Longrightarrow>
   \<exists>new. tr' = tr @ new \<and>
     filter is_connection new = replicate (nat N) (CreateConnection host port timeout)"
  using tcp_loop_trace [of env ops host port timeout "nat N" "([], [])" tr]
  by (simp add: tcp_ping_def)






section \<open>Rejected targets\<close>

text \<open>
  Claim C2 (amended). For every target string whose trimmed form is empty or contains a
  character outside the allow-list of alphanumerics and \<^verbatim>\<open>. - : % _ [ ]\<close>, \<^verbatim>\<open>ping\<close> returns
  exactly \<^verbatim>\<open>Invalid target\<close> and the events are those before the call: no subprocess is
  started and no connection is attempted.
\<close>

theorem ping_invalid_target:
  assumes "py_strip target = [] \<or> (\<exists>c\<in>set (py_strip target). \<not> allowed_char c)"
  shows "ping env ops v target count timeout tr = (Inr ''Invalid target'', tr)"
proof -
  from assms have "sanitize target = None" by (simp add: sanitize_None_iff)
  then show ?thesis by (simp add: ping_def)
qed

section \<open>Exceptions and the failed ICMP attempt\<close>

lemma default_reason_has_icmp: "py_in ''icmp'' (py_lower ''ICMP ping failed'')"
  by (simp add: py_lower_def lower_char_ascii py_startswith_def)

lemma silent_failure_falls_back:
  "py_strip out = [] \<Longrightarrow> py_strip err = [] \<Longrightarrow>
   list_ex (\<lambda>k. py_in k (py_lower (or_str (py_strip err) (or_str (py_strip out) ''ICMP ping failed''))))
     fallback_keywords"
  using default_reason_has_icmp by (simp add: or_str_def fallback_keywords_def)

lemma ping_icmp_failed:
  assumes "sanitize target = Some t" and "split_host_port t = Inr (host, port)"
    and "icmp_ping env host (or_int count (packet_count v)) (or_int timeout (timeout_seconds v)) tr
           = (Inr (False, out, err), tr1)"
    and "tcp_ping env ops host (or_int port (tcp_default_port v)) (tcp_attempts v)
           (tcp_timeout_seconds v) tr1 = ((samples, errors), tr2)"
  shows "ping env ops v target count timeout tr =
     (if list_ex (\<lambda>k. py_in k (py_lower (or_str (py_strip err)
                                    (or_str (py_strip out) ''ICMP ping failed''))))
           fallback_keywords
      then (format_tcp_table ops host (or_int port (tcp_default_port v)) samples (tcp_attempts v)
              errors, tr2)
      else (Inr (or_str (py_strip err) (or_str (py_strip out) ''Ping failed'')), tr1))"
proof -
  from assms(1) have "t \<noteq> []" by (auto simp add: sanitize_Some_iff)
  then show ?thesis by (simp add: ping_def assms Let_def)
qed










theorem ping_invalid_target_witness:
  "py_strip '';rm -rf /'' = '';rm -rf /'' \<and> \<not> allowed_char (CHR '';'') \<and>
   ping (tick_env usr_bin_ping (Inr (0, [], [])) refused) tick_ops (default_valves tick_ops)
     '';rm -rf /'' None None [] = (Inr ''Invalid target'', []) \<and>
   py_strip ''   '' = [] \<and>
   ping (tick_env usr_bin_ping (Inr (0, [], [])) refused) tick_ops (default_valves tick_ops)
     ''   '' None None [] = (Inr ''Invalid target'', [])"
proof -
  have s: "py_strip '';rm -rf /'' = '';rm -rf /''"
    by (simp add: py_strip_def py_isspace_def)
  have a: "\<not> allowed_char (CHR '';'')"
    by (simp add: allowed_char_def)
  have e: "py_strip ''   '' = []"
    by (simp add: py_strip_def py_isspace_def)
  have 1: "ping (tick_env usr_bin_ping (Inr (0, [], [])) refused) tick_ops (default_valves tick_ops)
     '';rm -rf /'' None None [] = (Inr ''Invalid target'', [])"
    by (rule ping_invalid_target) (simp add: s a)
  have 2: "ping (tick_env usr_bin_ping (Inr (0, [], [])) refused) tick_ops (default_valves tick_ops)
     ''   '' None None [] = (Inr ''Invalid target'', [])"
    by (rule ping_invalid_target) (simp add: e)
  from s a e 1 2 show ?thesis by simp
qed

text \<open>
  Claim C2 as stated does not hold: the target is trimmed before the allow-list is applied, so
  a target with a space in front contains a character outside the allow-list, yet it is
  accepted and the subprocess is started.
\<close>

theorem ping_padded_target_runs:
  "CHR '' '' \<in> set '' a'' \<and> \<not> allowed_char (CHR '' '') \<and>
   ping (tick_env usr_bin_ping (Inr (0, [], [])) refused) tick_ops (default_valves tick_ops)
     '' a'' None None [] =
   (Inr ''| Type | Host | Note |\<newline>|---|---|---|\<newline>| ICMP | a | Success (unparsed output) |'',
    [SubprocessRun [''/usr/bin/ping'', ''-c'', ''4'', ''-W'', ''5'', ''a'']])"
  by (simp add: ping_def sanitize_padded split_host_port_a default_valves_fields or_int_None
      icmp_ping_usr_bin format_icmp_table_empty unparsed_table_def allowed_char_def)













section \<open>The fallback decision\<close>


text \<open>
  Claim C10. Whenever the ICMP attempt fails and both its output and its error text are empty
  after trimming, the substituted reason \<^verbatim>\<open>ICMP ping failed\<close> contains the keyword
  \<^verbatim>\<open>icmp\<close>, so \<^verbatim>\<open>ping\<close> proceeds to the TCP fallback: one connection per configured attempt
  is tried, the result is that of the TCP table, and every string \<^verbatim>\<open>ping\<close> returns is a
  TCP table, never a bare failure string.
\<close>

theorem ping_silent_failure:
  assumes san: "sanitize target = Some t"
    and sp: "split_host_port t = Inr (host, port)"
    and ic: "icmp_ping env host (or_int count (packet_count v)) (or_int timeout (timeout_seconds v))
               tr = (Inr (False, out, err), tr1)"
    and out: "py_strip out = []"
    and err: "py_strip err = []"
    and tp: "tcp_ping env ops host (or_int port (tcp_default_port v)) (tcp_attempts v)
               (tcp_timeout_seconds v) tr1 = ((samples, errors), tr2)"
  shows "py_in ''icmp'' (py_lower ''ICMP ping failed'') \<and>
         ping env ops v target count timeout tr =
           (format_tcp_table ops host (or_int port (tcp_default_port v)) samples (tcp_attempts v)
              errors, tr2) \<and>
         (\<exists>new. tr2 = tr1 @ new \<and>
            filter is_connection new =
              replicate (nat (tcp_attempts v))
                (CreateConnection host (or_int port (tcp_default_port v)) (tcp_timeout_seconds v))) \<and>
         (\<forall>s. fst (ping env ops v target count timeout tr) = Inr s \<longrightarrow>
            (\<exists>rest. s = tcp_header @ ''\<newline>'' @ ''|---|---|---:|---:|---:|---:|---:|---:|---:|'' @
                 ''\<newline>'' @ ''| TCP | '' @ host @ '' | '' @
                 decimal (or_int port (tcp_default_port v)) @ '' | '' @ rest))"
proof -
  have eq: "ping env ops v target count timeout tr =
           (format_tcp_table ops host (or_int port (tcp_default_port v)) samples (tcp_attempts v)
              errors, tr2)"
    using ping_icmp_failed [OF san sp ic tp] silent_failure_falls_back [OF out err] by simp
  have "\<exists>rest. s = tcp_header @ ''\<newline>'' @ ''|---|---|---:|---:|---:|---:|---:|---:|---:|'' @
                 ''\<newline>'' @ ''| TCP | '' @ host @ '' | '' @
                 decimal (or_int port (tcp_default_port v)) @ '' | '' @ rest"
    if "fst (ping env ops v target count timeout tr) = Inr s" for s
    using that format_tcp_table_shape [of ops host "or_int port (tcp_default_port v)" samples
      "tcp_attempts v" errors s]
    by (simp add: eq)
  with eq default_reason_has_icmp tcp_ping_trace [OF tp] show ?thesis by blast
qed

section \<open>Unparsed output of a successful ICMP attempt\<close>

lemma format_icmp_table_unparsed:
  assumes "re_search re_packets_unix (out @ ''\<newline>'' @ err) = None"
    and "re_search re_packets_win (out @ ''\<newline>'' @ err) = None"
  shows "format_icmp_table env host out err = None"
proof -
  have "or_str out [] = out" "or_str err [] = err" by (simp_all add: or_str_def)
  with assms show ?thesis by (simp add: format_icmp_table_def Let_def)
qed

text \<open>
  Claim C7. Whenever the ICMP subprocess exits successfully and neither the POSIX nor the
  Windows packet pattern matches the combined output, \<^verbatim>\<open>ping\<close> returns the one-row table
  that notes \<^verbatim>\<open>Success (unparsed output)\<close> for the host, and nothing else happens.
\<close>

theorem ping_unparsed_success:
  assumes san: "sanitize target = Some t"
    and sp: "split_host_port t = Inr (host, port)"
    and ic: "icmp_ping env host (or_int count (packet_count v)) (or_int timeout (timeout_seconds v))
               tr = (Inr (True, out, err), tr1)"
    and unix: "re_search re_packets_unix (out @ ''\<newline>'' @ err) = None"
    and win: "re_search re_packets_win (out @ ''\<newline>'' @ err) = None"
  shows "ping env ops v target count timeout tr =
           (Inr (''| Type | Host | Note |\<newline>|---|---|---|\<newline>| ICMP | '' @ host @
                 '' | Success (unparsed output) |''), tr1)"
proof -
  from san have "t \<noteq> []" by (auto simp add: sanitize_Some_iff)
  then show ?thesis
    by (simp add: ping_def san sp ic format_icmp_table_unparsed [OF unix win] unparsed_table_def
        Let_def)
qed

section \<open>The range of the parsed port\<close>

lemma split1_parts: "unpack2 (py_split1 c s) = Inr (a, b) \<Longrightarrow> s = a @ c # b"
proof -
  assume u: "unpack2 (py_split1 c s) = Inr (a, b)"
  then have c: "c \<in> set s" by (auto simp add: py_split1_def split: if_splits)
  with u have a: "a = takeWhile (\<lambda>x. x \<noteq> c) s" and b: "b = tl (dropWhile (\<lambda>x. x \<noteq> c) s)"
    by (simp_all add: py_split1_def)
  from c have "dropWhile (\<lambda>x. x \<noteq> c) s \<noteq> []" by simp
  moreover from this have "hd (dropWhile (\<lambda>x. x \<noteq> c) s) = c"
    using hd_dropWhile [of "\<lambda>x. x \<noteq> c" s] by simp
  ultimately have "dropWhile (\<lambda>x. x \<noteq> c) s = c # b"
    unfolding b by (cases "dropWhile (\<lambda>x. x \<noteq> c) s") simp_all
  then show ?thesis using takeWhile_dropWhile_id [of "\<lambda>x. x \<noteq> c" s] a by simp
qed

lemma rsplit1_parts: "unpack2 (py_rsplit1 c s) = Inr (a, b) \<Longrightarrow> s = a @ c # b"
proof -
  assume u: "unpack2 (py_rsplit1 c s) = Inr (a, b)"
  then have c: "c \<in> set s" by (auto simp add: py_rsplit1_def split: if_splits)
  with u have a: "a = rev (tl (dropWhile (\<lambda>x. x \<noteq> c) (rev s)))"
    and b: "b = rev (takeWhile (\<lambda>x. x \<noteq> c) (rev s))"
    by (simp_all add: py_rsplit1_def)
  from c have "dropWhile (\<lambda>x. x \<noteq> c) (rev s) \<noteq> []" by simp
  moreover from this have "hd (dropWhile (\<lambda>x. x \<noteq> c) (rev s)) = c"
    using hd_dropWhile [of "\<lambda>x. x \<noteq> c" "rev s"] by simp
  ultimately have "dropWhile (\<lambda>x. x \<noteq> c) (rev s) = c # rev a"
    unfolding a by (cases "dropWhile (\<lambda>x. x \<noteq> c) (rev s)") simp_all
  then have "rev s = rev b @ c # rev a"
    using takeWhile_dropWhile_id [of "\<lambda>x. x \<noteq> c" "rev s"] b by simp
  then have "rev (rev s) = rev (rev b @ c # rev a)" by simp
  then show ?thesis by simp
qed

text \<open>
  Claim C8 (amended). For every target from which a port is parsed, the port is the integer
  that \<^verbatim>\<open>int\<close> reads from the text after the last colon, after \<^verbatim>\<open>]:\<close> for a bracketed
  host; it has at most 4300 digits, and no other bound is checked.
\<close>

theorem split_host_port_port:
  assumes "split_host_port t = Inr (h, Some n)"
  shows "(\<exists>p. py_int p = Inr n \<and> (t = ''['' @ h @ '']:'' @ p \<or> t = h @ '':'' @ p)) \<and>
         int_digits n \<le> max_str_digits"
proof (cases "py_startswith t ''[''")
  case True
  then obtain t' where t: "t = CHR ''['' # t'"
    by (cases t) (simp_all add: py_startswith_def)
  from assms True have sb: "split_bracketed t = Inr (h, Some n)"
    by (auto simp add: split_host_port_def split: sum.splits)
  then obtain host rest where u: "unpack2 (py_split1 (CHR '']'') t') = Inr (host, rest)"
    by (auto simp add: split_bracketed_def t split: sum.splits)
  from sb u have r: "py_startswith rest '':''" and i: "py_int (tl rest) = Inr n" and h: "host = h"
    by (auto simp add: split_bracketed_def t split: sum.splits if_splits)
  from r have "rest = CHR '':'' # tl rest"
    by (cases rest) (simp_all add: py_startswith_def)
  with split1_parts [OF u] h t have "t = ''['' @ h @ '']:'' @ tl rest" by simp
  with i py_int_within [OF i] show ?thesis by blast
next
  case False
  with assms obtain host p where u: "unpack2 (py_rsplit1 (CHR '':'') t) = Inr (host, p)"
    by (auto simp add: split_host_port_def split: if_splits sum.splits)
  from assms False u have i: "py_int p = Inr n" and h: "host = h"
    by (auto simp add: split_host_port_def split: if_splits sum.splits exn.splits)
  from rsplit1_parts [OF u] h have "t = h @ '':'' @ p" by simp
  with i py_int_within [OF i] show ?thesis by blast
qed

lemma sanitize_a_0: "sanitize ''a:0'' = Some ''a:0''"
  by (simp add: sanitize_Some_iff py_strip_def py_isspace_def allowed_char_def)

lemma py_int_0: "py_int ''0'' = Inr 0"
  by (simp add: int_eval)

lemma split_host_port_a_0: "split_host_port ''a:0'' = Inr (''a'', Some 0)"
  using split_colon [of "''a''" "''0''"] by (simp add: py_startswith_def py_int_0)








theorem ping_silent_failure_witness:
  "ping (tick_env usr_bin_ping (Inr (1, [], [])) refused) tick_ops (default_valves tick_ops)
     ''a'' None None [] =
   (Inr (''| Type | Host | Port | Attempts | Success | Fail | Min (ms) | Avg (ms) | Max (ms) |\<newline>'' @
        ''|---|---|---:|---:|---:|---:|---:|---:|---:|\<newline>'' @
        ''| TCP | a | 443 | 4 | 0 | 4 | nan | nan | nan |\<newline>'' @
        ''\<newline>'' @
        ''| Attempt | Latency (ms) |\<newline>'' @
        ''|---:|---:|\<newline>'' @
        ''| 1 | failed |\<newline>'' @
        ''\<newline>'' @
        ''| Errors |\<newline>'' @
        ''|---|\<newline>'' @
        ''| [Errno 111] Connection refused |\<newline>'' @
        ''| [Errno 111] Connection refused |\<newline>'' @
        ''| [Errno 111] Connection refused |''),
    [SubprocessRun [''/usr/bin/ping'', ''-c'', ''4'', ''-W'', ''5'', ''a''],
     PerfCounter, CreateConnection ''a'' 443 2,
     PerfCounter, CreateConnection ''a'' 443 2,
     PerfCounter, CreateConnection ''a'' 443 2,
     PerfCounter, CreateConnection ''a'' 443 2])"
proof -
  let ?V = "default_valves tick_ops"
  have ic: "icmp_ping (tick_env usr_bin_ping (Inr (1, [], [])) refused) ''a''
      (or_int None (packet_count ?V)) (or_int None (timeout_seconds ?V)) [] =
      (Inr (False, [], []), [SubprocessRun [''/usr/bin/ping'', ''-c'', ''4'', ''-W'', ''5'', ''a'']])"
    by (simp add: or_int_None default_valves_fields icmp_ping_usr_bin)
  have tp: "tcp_ping (tick_env usr_bin_ping (Inr (1, [], [])) refused) tick_ops ''a''
      (or_int None (tcp_default_port ?V)) (tcp_attempts ?V) (tcp_timeout_seconds ?V)
      [SubprocessRun [''/usr/bin/ping'', ''-c'', ''4'', ''-W'', ''5'', ''a'']] =
     (([], [''[Errno 111] Connection refused'', ''[Errno 111] Connection refused'',
            ''[Errno 111] Connection refused'', ''[Errno 111] Connection refused'']),
      [SubprocessRun [''/usr/bin/ping'', ''-c'', ''4'', ''-W'', ''5'', ''a''],
       PerfCounter, CreateConnection ''a'' 443 2,
       PerfCounter, CreateConnection ''a'' 443 2,
       PerfCounter, CreateConnection ''a'' 443 2,
       PerfCounter, CreateConnection ''a'' 443 2])"
    by (simp add: or_int_None default_valves_fields tick_two tcp_ping_refused)
  note r = ping_silent_failure [OF sanitize_a split_host_port_a ic py_strip_Nil py_strip_Nil tp,
      THEN conjunct2, THEN conjunct1]
  from r show ?thesis
    by (simp add: or_int_None default_valves_fields format_tcp_table_refused)
qed

lemma greeting_not_unix: "re_search re_packets_unix (''PING a: 56 data bytes'' @ ''\<newline>'' @ []) = None"
  by (simp add: re_packets_unix_def re_eval)

lemma greeting_not_win: "re_search re_packets_win (''PING a: 56 data bytes'' @ ''\<newline>'' @ []) = None"
  by (simp add: re_packets_win_def re_eval)

theorem ping_unparsed_success_witness:
  "ping (tick_env usr_bin_ping (Inr (0, ''PING a: 56 data bytes'', [])) refused) tick_ops
     (default_valves tick_ops) ''a'' None None [] =
   (Inr ''| Type | Host | Note |\<newline>|---|---|---|\<newline>| ICMP | a | Success (unparsed output) |'',
    [SubprocessRun [''/usr/bin/ping'', ''-c'', ''4'', ''-W'', ''5'', ''a'']])"
proof -
  have ic: "icmp_ping (tick_env usr_bin_ping (Inr (0, ''PING a: 56 data bytes'', [])) refused) ''a''
      (or_int None (packet_count (default_valves tick_ops)))
      (or_int None (timeout_seconds (default_valves tick_ops))) [] =
      (Inr (True, ''PING a: 56 data bytes'', []),
       [SubprocessRun [''/usr/bin/ping'', ''-c'', ''4'', ''-W'', ''5'', ''a'']])"
    by (simp add: or_int_None default_valves_fields icmp_ping_usr_bin)
  from ping_unparsed_success [OF sanitize_a split_host_port_a ic greeting_not_unix greeting_not_win]
  show ?thesis by simp
qed

lemma split_host_port_9999: "split_host_port ''example.com:9999'' = Inr (''example.com'', Some 9999)"
  using split_colon [of "''example.com''" "''9999''"] by (simp add: py_startswith_def py_int_9999)

theorem split_host_port_port_witness:
  "split_host_port ''example.com:9999'' = Inr (''example.com'', Some 9999) \<and>
   py_int ''9999'' = Inr 9999 \<and>
   int_digits 9999 \<le> max_str_digits"
  using split_host_port_port [OF split_host_port_9999] split_host_port_9999 py_int_9999
  by simp

lemma py_int_70000: "py_int ''70000'' = Inr 70000"
  by (simp add: int_eval)

lemma py_int_minus_1: "py_int ''-1'' = Inr (- 1)"
  by (simp add: int_eval)

text \<open>
  Claim C8 as stated does not hold: the ports 0, 70000 and -1 are parsed from sanitized
  targets.
\<close>

theorem port_out_of_range:
  "sanitize ''a:0'' = Some ''a:0'' \<and>
   split_host_port ''a:0'' = Inr (''a'', Some 0) \<and>
   sanitize ''a:70000'' = Some ''a:70000'' \<and>
   split_host_port ''a:70000'' = Inr (''a'', Some 70000) \<and>
   sanitize ''a:-1'' = Some ''a:-1'' \<and>
   split_host_port ''a:-1'' = Inr (''a'', Some (- 1))"
proof -
  have 1: "sanitize ''a:70000'' = Some ''a:70000''"
    by (simp add: sanitize_Some_iff py_strip_def py_isspace_def allowed_char_def)
  have 2: "split_host_port ''a:70000'' = Inr (''a'', Some 70000)"
    using split_colon [of "''a''" "''70000''"] by (simp add: py_startswith_def py_int_70000)
  have 3: "sanitize ''a:-1'' = Some ''a:-1''"
    by (simp add: sanitize_Some_iff py_strip_def py_isspace_def allowed_char_def)
  have 4: "split_host_port ''a:-1'' = Inr (''a'', Some (- 1))"
    using split_colon [of "''a''" "''-1''"] by (simp add: py_startswith_def py_int_minus_1)
  from sanitize_a_0 split_host_port_a_0 1 2 3 4 show ?thesis by simp
qed

section \<open>The row of the ICMP table\<close>



















end
